(* ===== verification/Prelude.thy ===== *)
theory Prelude
  imports Main "HOL-Library.Word" "HOL-Library.Multiset" "HOL-Library.List_Lexorder"
begin

text \<open>
  Shared vocabulary of the ring-shift development (\<^verbatim>\<open>src/main.py\<close>): the types
  of rows, matrices, shift assignments and the file system the loader reads; the
  messages the program prints, which are its only observable output; Python's list
  slicing and \<^verbatim>\<open>range\<close>; the rectangularity test every component relies on; and the
  generic list lemmas the component theories share.
\<close>

named_theorems py_simps "equations of the Python builtins the model uses"

type_synonym row = "int list"
type_synonym matrix = "int list list"
type_synonym shifts = "int list"

text \<open>
  The file system as the loader sees it: \<^verbatim>\<open>os.path.exists\<close> holds for every name
  in the map's domain. An entry is a regular file holding the characters a text-mode
  \<^verbatim>\<open>open\<close> decodes from it, a directory, a file the process may not read, or a
  file whose bytes are not valid in the encoding \<^verbatim>\<open>open\<close> uses.
\<close>

datatype fs_entry = Regular_file string | Directory | Unreadable_file | Undecodable_file

type_synonym filesystem = "string \<rightharpoonup> fs_entry"

text \<open>
  The exceptions \<^verbatim>\<open>main.py\<close> can raise and does not catch, each ending the program
  with a traceback: those of opening and reading a file, and the \<^verbatim>\<open>ValueError\<close> that
  CPython raises when it is asked to convert an integer of more than 4300 decimal digits
  to a string (the f-string of line 98).
\<close>

datatype py_exception =
    IsADirectoryError string
  | PermissionError string
  | UnicodeDecodeError
  | ValueError_int_str_digits

text \<open>
  Everything \<^verbatim>\<open>main.py\<close> prints, one constructor per \<^verbatim>\<open>print\<close> call, in the
  order of the source, and \<open>Uncaught\<close> for the traceback with which an exception
  the program does not catch ends it. The program returns \<^verbatim>\<open>None\<close> on every other
  path, so the list of messages is its whole observable behaviour.
\<close>

datatype message =
    Err_file_not_found string
  | Err_file_empty string
  | Warn_skip_line string
  | Err_no_data
  | Err_inconsistent_columns
  | Err_column_sum_check
  | Exit_read_error
  | Matrix_empty
  | Matrix_rows_empty
  | Trying nat
  | Progress nat nat
  | Solution_found shifts matrix
  | No_solution
  | Uncaught py_exception

subsection \<open>Python list slicing and range\<close>

text \<open>
  A slice bound \<open>i\<close> of a list of length \<open>n\<close>: a negative bound counts from the
  end and is clipped at 0, a non-negative one is clipped at \<open>n\<close>.
  \<^verbatim>\<open>xs[i:]\<close> drops that many elements, \<^verbatim>\<open>xs[:j]\<close> takes them.
\<close>

definition py_slice_bound :: "int \<Rightarrow> nat \<Rightarrow> nat" where
  "py_slice_bound i n = (if i < 0 then nat (max 0 (int n + i)) else min (nat i) n)"

definition py_slice_from :: "'a list \<Rightarrow> int \<Rightarrow> 'a list" where
  "py_slice_from xs i = drop (py_slice_bound i (length xs)) xs"

definition py_slice_upto :: "'a list \<Rightarrow> int \<Rightarrow> 'a list" where
  "py_slice_upto xs j = take (py_slice_bound j (length xs)) xs"

definition py_range :: "nat \<Rightarrow> int list" where
  "py_range n = map int [0..<n]"

text \<open>
  The number of elements \<open>find P\<close> examines: up to and including the first one
  satisfying \<open>P\<close>, all of them when there is none.
\<close>

fun n_checked :: "('a \<Rightarrow> bool) \<Rightarrow> 'a list \<Rightarrow> nat" where
  "n_checked P [] = 0"
| "n_checked P (x # xs) = (if P x then 1 else Suc (n_checked P xs))"

lemma py_slice_bound_zero [simp]: "py_slice_bound 0 n = 0"
  by (simp add: py_slice_bound_def)

lemma py_slice_bound_neg:
  "0 < e \<Longrightarrow> e \<le> int n \<Longrightarrow> py_slice_bound (- e) n = n - nat e"
  by (simp add: py_slice_bound_def)

lemma py_slice_from_zero [simp]: "py_slice_from xs 0 = xs"
  by (simp add: py_slice_from_def)

lemma py_slice_upto_zero [simp]: "py_slice_upto xs 0 = []"
  by (simp add: py_slice_upto_def)

lemma py_range_length [simp]: "length (py_range n) = n"
  by (simp add: py_range_def)

lemma py_range_set: "set (py_range n) = {0..<int n}"
proof -
  have "set (py_range n) = int ` {0..<n}" by (simp add: py_range_def)
  also have "\<dots> = {0..<int n}" by (simp add: image_int_atLeastLessThan)
  finally show ?thesis .
qed

lemma py_range_sorted: "sorted_wrt (<) (py_range n)"
  by (simp add: py_range_def sorted_wrt_map)

lemma py_range_Suc: "py_range (Suc n) = py_range n @ [int n]"
  by (simp add: py_range_def)

subsection \<open>Rotation\<close>

lemma mset_rotate1: "mset (rotate1 xs) = mset xs"
  by (cases xs) simp_all

lemma mset_rotate [simp]: "mset (rotate n xs) = mset xs"
  by (induction n) (simp_all add: mset_rotate1)

text \<open>The nat index an int modulus gives, for a positive modulus.\<close>

lemma nat_mod_int_less: "0 < n \<Longrightarrow> nat (x mod int n) < n"
  by (simp add: nat_less_iff)

lemma nat_int_mod_add:
  "0 < n \<Longrightarrow> (nat (a mod int n) + j) mod n = nat ((a + int j) mod int n)"
proof -
  assume n: "0 < n"
  have "int ((nat (a mod int n) + j) mod n) = (a mod int n + int j) mod int n"
    using n by (simp add: zmod_int)
  also have "\<dots> = (a + int j) mod int n" by (simp add: mod_add_left_eq)
  finally show ?thesis by simp
qed

subsection \<open>Rectangular matrices\<close>

text \<open>
  \<^verbatim>\<open>all(len(row) == first_row_len for row in matrix)\<close>: every row is as long as
  the first. The empty matrix is rectangular.
\<close>

definition rectangular :: "'a list list \<Rightarrow> bool" where
  "rectangular m \<longleftrightarrow> list_all (\<lambda>r. length r = length (hd m)) m"

lemma rectangular_Nil [simp]: "rectangular []"
  by (simp add: rectangular_def)

lemma rectangular_iff:
  "rectangular m \<longleftrightarrow> (\<forall>r \<in> set m. length r = length (hd m))"
  by (simp add: rectangular_def list_all_iff)

lemma rectangular_width:
  "rectangular m \<Longrightarrow> r \<in> set m \<Longrightarrow> length r = length (hd m)"
  by (simp add: rectangular_iff)

lemma rectangular_map_same_length:
  assumes "rectangular m" and "\<And>r. r \<in> set m \<Longrightarrow> length (f r) = length r"
  shows "rectangular (map f m)"
proof (cases m)
  case Nil
  then show ?thesis by simp
next
  case (Cons r rs)
  with assms show ?thesis by (auto simp: rectangular_iff)
qed

subsection \<open>How far a linear search looks\<close>

lemma n_checked_le_length: "n_checked P xs \<le> length xs"
  by (induction xs) simp_all

lemma n_checked_None: "find P xs = None \<Longrightarrow> n_checked P xs = length xs"
  by (induction xs) (simp_all split: if_splits)

lemma n_checked_cong: "\<forall>x \<in> set xs. P x = Q x \<Longrightarrow> n_checked P xs = n_checked Q xs"
  by (induction xs) simp_all

lemma find_Some_set: "find P xs = Some x \<Longrightarrow> x \<in> set xs \<and> P x"
  by (induction xs) (auto split: if_splits)

lemma find_cong_set: "\<forall>x \<in> set xs. P x = Q x \<Longrightarrow> find P xs = find Q xs"
  by (induction xs) simp_all

text \<open>
  In a strictly increasing list, the element \<open>find\<close> returns is the least one
  satisfying the predicate.
\<close>

lemma find_sorted_least:
  assumes "sorted_wrt (<) xs" and "find P xs = Some x"
    and "y \<in> set xs" and "y < (x :: 'a :: order)"
  shows "\<not> P y"
  using assms
proof (induction xs)
  case Nil
  then show ?case by simp
next
  case (Cons z zs)
  show ?case
  proof (cases "P z")
    case True
    with Cons.prems have "x = z" by simp
    with Cons.prems show ?thesis by auto
  next
    case False
    with Cons show ?thesis by (auto simp: less_le_not_le)
  qed
qed

lemma length_concat_map_one:
  "\<forall>x \<in> set xs. length (f x) = 1 \<Longrightarrow> length (concat (map f xs)) = length xs"
  by (induction xs) simp_all

subsection \<open>Bounding sums\<close>

lemma abs_sum_list_le:
  "(\<And>x. x \<in> set xs \<Longrightarrow> \<bar>f x\<bar> \<le> g x) \<Longrightarrow> \<bar>sum_list (map f xs)\<bar> \<le> sum_list (map g xs :: int list)"
proof (induction xs)
  case Nil
  then show ?case by simp
next
  case (Cons y ys)
  then have "\<bar>f y\<bar> \<le> g y" and "\<bar>sum_list (map f ys)\<bar> \<le> sum_list (map g ys)" by simp_all
  then show ?case by simp
qed

end
