(* ===== verification/Shift.thy ===== *)
theory Shift
  imports Prelude
begin

text \<open>
  The Row Shifter, \<^verbatim>\<open>shift_row\<close> (\<^verbatim>\<open>src/main.py\<close>, lines 47--58): a circular
  right shift of a list by any integer amount. The model keeps the source's Python
  slicing, \<^verbatim>\<open>row[-effective_shift:] + row[:-effective_shift]\<close>, including the
  case \<open>effective_shift = 0\<close>, where \<^verbatim>\<open>-0\<close> is \<^verbatim>\<open>0\<close>, so the first slice is the
  whole row and the second is empty. The lemmas relate it to HOL's left rotation
  \<open>rotate\<close>, read it element by element, and prove the properties of section 8 of
  the specification: reduction of the amount modulo the length, the identity shift,
  composition, the round trip, and that a shift permutes the row.
\<close>

definition shift_row :: "'a list \<Rightarrow> int \<Rightarrow> 'a list" where
  "shift_row row shift_amount =
     (if row = [] then []
      else let n = int (length row);
               effective_shift = shift_amount mod n
           in py_slice_from row (- effective_shift) @ py_slice_upto row (- effective_shift))"

subsection \<open>Shifting is rotating\<close>

text \<open>
  A right shift by \<open>k\<close> is a left rotation by \<open>(-k) mod n\<close>. The two cases are the
  two ways the slicing behaves: a zero effective shift keeps the row, a positive one
  splits it at \<open>n - e\<close>.
\<close>

lemma shift_row_Nil [simp]: "shift_row [] k = []"
  by (simp add: shift_row_def)

lemma shift_row_split:
  assumes "xs \<noteq> []"
  shows "shift_row xs k =
           drop (nat (int (length xs) - k mod int (length xs))) xs @
           take (nat (int (length xs) - k mod int (length xs))) xs
         \<or> (k mod int (length xs) = 0 \<and> shift_row xs k = xs)"
proof -
  let ?n = "int (length xs)" and ?e = "k mod int (length xs)"
  have n: "0 < ?n" using assms by simp
  have e: "0 \<le> ?e" "?e < ?n" using n by simp_all
  show ?thesis
  proof (cases "?e = 0")
    case True
    with assms show ?thesis by (simp add: shift_row_def Let_def)
  next
    case False
    with e have "0 < ?e" by simp
    then have "py_slice_bound (- ?e) (length xs) = nat (?n - ?e)"
      using e by (simp add: py_slice_bound_neg nat_diff_distrib)
    with assms show ?thesis
      by (simp add: shift_row_def Let_def py_slice_from_def py_slice_upto_def)
  qed
qed

lemma shift_row_rotate:
  "shift_row xs k = rotate (nat ((- k) mod int (length xs))) xs"
proof (cases "xs = []")
  case True
  then show ?thesis by simp
next
  case False
  let ?n = "int (length xs)" and ?e = "k mod int (length xs)"
  have n: "0 < ?n" using False by simp
  show ?thesis
  proof (cases "?e = 0")
    case True
    then have "(- k) mod ?n = 0" by (simp add: zmod_zminus1_eq_if)
    with True False show ?thesis by (simp add: shift_row_def Let_def)
  next
    case False
    have neg: "(- k) mod ?n = ?n - ?e" using False by (simp add: zmod_zminus1_eq_if)
    have "0 \<le> ?e" using n by simp
    with False have "0 < ?e" by simp
    moreover have "?e < ?n" using n by simp
    ultimately have lt: "nat (?n - ?e) < length xs" by (simp add: nat_less_iff)
    have "rotate (nat ((- k) mod ?n)) xs = drop (nat (?n - ?e)) xs @ take (nat (?n - ?e)) xs"
      using lt by (simp add: neg rotate_drop_take)
    moreover have "shift_row xs k = drop (nat (?n - ?e)) xs @ take (nat (?n - ?e)) xs"
      using shift_row_split [of xs k] False \<open>xs \<noteq> []\<close> by auto
    ultimately show ?thesis by simp
  qed
qed

subsection \<open>Shape and contents\<close>

lemma shift_row_length [simp]: "length (shift_row xs k) = length xs"
  by (simp add: shift_row_rotate)

lemma shift_row_set [simp]: "set (shift_row xs k) = set xs"
  by (simp add: shift_row_rotate)

lemma shift_row_eq_Nil [simp]: "shift_row xs k = [] \<longleftrightarrow> xs = []"
  by (simp add: shift_row_rotate)

text \<open>
  Element \<open>j\<close> of the shifted row is element \<open>(j - k) mod n\<close> of the original:
  the element at \<open>i\<close> moves right to \<open>(i + k) mod n\<close>.
\<close>

lemma shift_row_nth:
  assumes "j < length xs"
  shows "shift_row xs k ! j = xs ! nat ((int j - k) mod int (length xs))"
proof -
  have n: "0 < length xs" using assms by linarith
  have "shift_row xs k ! j = xs ! ((nat ((- k) mod int (length xs)) + j) mod length xs)"
    using assms by (simp add: shift_row_rotate nth_rotate)
  also have "\<dots> = xs ! nat ((- k + int j) mod int (length xs))"
    using n by (simp add: nat_int_mod_add)
  finally show ?thesis by (simp add: algebra_simps)
qed

lemma shift_row_eqI:
  assumes "\<And>j. j < length xs \<Longrightarrow>
             xs ! nat ((int j - a) mod int (length xs)) = xs ! nat ((int j - b) mod int (length xs))"
  shows "shift_row xs a = shift_row xs b"
  by (rule nth_equalityI) (simp_all add: shift_row_nth assms)

lemma shift_row_shift_row_nth:
  assumes "j < length xs"
  shows "shift_row (shift_row xs a) b ! j = xs ! nat ((int j - (a + b)) mod int (length xs))"
proof -
  let ?n = "int (length xs)"
  have n: "0 < length xs" using assms by linarith
  have i: "nat ((int j - b) mod ?n) < length xs" using n by (simp add: nat_mod_int_less)
  have "shift_row (shift_row xs a) b ! j = xs ! nat ((int (nat ((int j - b) mod ?n)) - a) mod ?n)"
    using assms i by (simp add: shift_row_nth)
  also have "\<dots> = xs ! nat ((int j - (a + b)) mod ?n)"
    using n by (simp add: mod_diff_left_eq algebra_simps)
  finally show ?thesis .
qed

subsection \<open>The specification's description of a shift\<close>

text \<open>
  C18: the shifted row is the last \<open>e\<close> elements followed by the first \<open>n - e\<close>,
  where \<open>e = k mod n\<close> with Python's non-negative modulo; for \<open>e = 0\<close> this is the
  row itself, and the empty row stays empty.
\<close>

theorem shift_row_spec:
  "shift_row xs k =
     (let e = nat (k mod int (length xs))
      in drop (length xs - e) xs @ take (length xs - e) xs)"
proof (cases "xs = []")
  case True
  then show ?thesis by simp
next
  case False
  let ?n = "int (length xs)" and ?e = "k mod int (length xs)"
  have n: "0 < ?n" using False by simp
  show ?thesis
  proof (cases "?e = 0")
    case True
    with False show ?thesis by (simp add: shift_row_def Let_def)
  next
    case e: False
    have "0 \<le> ?e" "?e < ?n" using n by simp_all
    then have "nat (?n - ?e) = length xs - nat ?e" by (simp add: nat_diff_distrib)
    with shift_row_split [OF False, of k] e show ?thesis by (simp add: Let_def)
  qed
qed

subsection \<open>The amount modulo the length, composition, round trip\<close>

text \<open>
  C27: only the amount modulo the row's length matters, and the zero shift keeps the
  row.
\<close>

theorem shift_row_mod_zero:
  "shift_row xs k = shift_row xs (k mod int (length xs)) \<and> shift_row xs 0 = xs"
proof
  show "shift_row xs k = shift_row xs (k mod int (length xs))"
    by (rule shift_row_eqI) (simp add: mod_diff_right_eq)
  show "shift_row xs 0 = xs" by (simp add: shift_row_rotate)
qed

text \<open>C29: shifting by \<open>a\<close> and then by \<open>b\<close> is shifting by \<open>a + b\<close>.\<close>

theorem shift_row_add: "shift_row (shift_row xs a) b = shift_row xs (a + b)"
proof (rule nth_equalityI)
  fix j assume "j < length (shift_row (shift_row xs a) b)"
  then have j: "j < length xs" by simp
  then show "shift_row (shift_row xs a) b ! j = shift_row xs (a + b) ! j"
    by (simp only: shift_row_shift_row_nth shift_row_nth)
qed simp

text \<open>
  C28: round trip: shifting by \<open>k\<close> and then by \<open>n - k mod n\<close> restores the row.
\<close>

theorem shift_row_roundtrip:
  "shift_row (shift_row xs k) (int (length xs) - k mod int (length xs)) = xs"
proof (rule nth_equalityI)
  fix j assume "j < length (shift_row (shift_row xs k) (int (length xs) - k mod int (length xs)))"
  then have j: "j < length xs" by simp
  have "(int j - (k + (int (length xs) - k mod int (length xs)))) mod int (length xs)
          = int j mod int (length xs)"
    by (simp add: mod_diff_right_eq [symmetric] mod_add_right_eq [symmetric] algebra_simps)
  also have "\<dots> = int j" using j by simp
  finally show "shift_row (shift_row xs k) (int (length xs) - k mod int (length xs)) ! j = xs ! j"
    using j by (simp add: shift_row_shift_row_nth)
qed simp

text \<open>C30: a shift permutes the row: the multiset of its elements is unchanged.\<close>

theorem shift_row_mset: "mset (shift_row xs k) = mset xs"
  by (simp add: shift_row_rotate)

end
