(* ===== verification/Enumeration.thy ===== *)
theory Enumeration
  imports Prelude
begin

text \<open>
  The enumeration of shift assignments, \<^verbatim>\<open>product(range(num_cols), repeat=num_rows)\<close>
  (\<^verbatim>\<open>src/main.py\<close>, line 100). \<^verbatim>\<open>itertools.product\<close> is modelled by the Python
  equivalent its documentation gives: start from \<^verbatim>\<open>[[]]\<close> and, for each pool,
  extend every partial tuple by every element of the pool. The lemmas show that this
  is HOL's \<open>product_lists\<close>, that it lists exactly the tuples of the right length
  over the pool, \<open>length xs ^ r\<close> of them, without repetition, and in strictly
  increasing lexicographic order: the last position varies fastest.
\<close>

definition itertools_product :: "'a list list \<Rightarrow> 'a list list" where
  "itertools_product pools = fold (\<lambda>pool result. [x @ [y]. x \<leftarrow> result, y \<leftarrow> pool]) pools [[]]"

definition product_repeat :: "'a list \<Rightarrow> nat \<Rightarrow> 'a list list" where
  "product_repeat xs r = itertools_product (replicate r xs)"

subsection \<open>The fold is \<open>product_lists\<close>\<close>

lemma append_fun_simps:
  "(@) [] = (\<lambda>w. w)" "(@) (a @ [x]) = (\<lambda>w. a @ x # w)"
  by (simp_all add: fun_eq_iff)

lemma concat_map_extend:
  "concat (map (\<lambda>z. map (\<lambda>w. z @ w) ws) (concat (map (\<lambda>x. map (\<lambda>y. x @ [y]) p) acc)))
   = concat (map (\<lambda>x. map (\<lambda>w. x @ w) (concat (map (\<lambda>y. map (Cons y) ws) p))) acc)"
  by (induction acc) (simp_all add: map_concat comp_def append_fun_simps)

lemma fold_extend_product_lists:
  "fold (\<lambda>pool result. [x @ [y]. x \<leftarrow> result, y \<leftarrow> pool]) pools acc
     = [x @ w. x \<leftarrow> acc, w \<leftarrow> product_lists pools]"
proof (induction pools arbitrary: acc)
  case Nil
  show ?case by (induction acc) (simp_all add: append_fun_simps)
next
  case (Cons p ps)
  then show ?case by (simp add: concat_map_extend)
qed

lemma product_repeat_product_lists:
  "product_repeat xs r = product_lists (replicate r xs)"
  unfolding product_repeat_def itertools_product_def fold_extend_product_lists
  by (simp add: append_fun_simps)

subsection \<open>Which tuples, how many, in which order\<close>

lemma list_all2_member_replicate:
  "list_all2 (\<lambda>x ys. x \<in> set ys) s (replicate r xs) \<longleftrightarrow> length s = r \<and> set s \<subseteq> set xs"
proof (induction r arbitrary: s)
  case 0
  then show ?case by auto
next
  case (Suc r)
  then show ?case by (cases s) auto
qed

lemma set_product_repeat:
  "set (product_repeat xs r) = {s. length s = r \<and> set s \<subseteq> set xs}"
  by (simp add: product_repeat_product_lists product_lists_set list_all2_member_replicate)

lemma length_product_lists_replicate:
  "length (product_lists (replicate r xs)) = length xs ^ r"
  by (induction r) (simp_all add: length_concat comp_def sum_list_triv)

lemma length_product_repeat [simp]: "length (product_repeat xs r) = length xs ^ r"
  by (simp add: product_repeat_product_lists length_product_lists_replicate)

lemma distinct_product_repeat: "distinct xs \<Longrightarrow> distinct (product_repeat xs r)"
  by (simp add: product_repeat_product_lists distinct_product_lists)

lemma in_product_repeat_length: "s \<in> set (product_repeat xs r) \<Longrightarrow> length s = r"
  by (simp add: set_product_repeat)

text \<open>
  The lexicographic order of \<open>HOL-Library.List_Lexorder\<close> on the tuples: a list of
  pools each strictly increasing gives a strictly increasing list of tuples.
\<close>

lemma sorted_wrt_map_Cons:
  "sorted_wrt (<) ps \<Longrightarrow> sorted_wrt (<) (map (Cons (x :: 'a :: linorder)) ps)"
  by (simp add: sorted_wrt_map)

lemma sorted_wrt_concat_map_Cons:
  assumes "sorted_wrt (<) (xs :: 'a :: linorder list)" and "sorted_wrt (<) ps"
  shows "sorted_wrt (<) (concat (map (\<lambda>x. map (Cons x) ps) xs))"
  using assms(1)
proof (induction xs)
  case Nil
  then show ?case by simp
next
  case (Cons x xs)
  then show ?case
    by (auto simp: sorted_wrt_append sorted_wrt_map_Cons assms(2))
qed

lemma sorted_wrt_product_lists:
  "\<forall>xs \<in> set xss. sorted_wrt (<) (xs :: 'a :: linorder list) \<Longrightarrow>
   sorted_wrt (<) (product_lists xss)"
  by (induction xss) (simp_all add: sorted_wrt_concat_map_Cons)

lemma sorted_product_repeat:
  "sorted_wrt (<) (xs :: 'a :: linorder list) \<Longrightarrow> sorted_wrt (<) (product_repeat xs r)"
  by (simp add: product_repeat_product_lists sorted_wrt_product_lists)

subsection \<open>The candidates of the search\<close>

text \<open>
  C10: the candidates \<^verbatim>\<open>product(range(C), repeat=R)\<close> are exactly the
  assignments of \<open>R\<close> shifts in \<open>[0, C)\<close>, \<open>C ^ R\<close> of them, each once.
\<close>

theorem product_repeat_candidates:
  "set (product_repeat (py_range c) r) = {s. length s = r \<and> (\<forall>x \<in> set s. 0 \<le> x \<and> x < int c)}
   \<and> length (product_repeat (py_range c) r) = c ^ r
   \<and> distinct (product_repeat (py_range c) r)"
proof (intro conjI)
  show "set (product_repeat (py_range c) r) = {s. length s = r \<and> (\<forall>x \<in> set s. 0 \<le> x \<and> x < int c)}"
    by (auto simp: set_product_repeat py_range_set)
  show "length (product_repeat (py_range c) r) = c ^ r" by simp
  show "distinct (product_repeat (py_range c) r)"
    by (simp add: distinct_product_repeat py_range_def distinct_map)
qed

lemma product_repeat_candidates_witness:
  "[1, 0] \<in> set (product_repeat (py_range 2) 2) \<and> [0, 2] \<notin> set (product_repeat (py_range 2) 2)
   \<and> length (product_repeat (py_range 2) 2) = 4"
  using product_repeat_candidates [of 2 2] by simp

text \<open>
  C9: the candidates come in strictly increasing lexicographic order, the last row's
  shift varying fastest.
\<close>

theorem product_repeat_lex_sorted: "sorted_wrt (<) (product_repeat (py_range c) r)"
  by (simp add: sorted_product_repeat py_range_sorted)

lemma product_repeat_2_2: "product_repeat (py_range 2) 2 = [[0, 0], [0, 1], [1, 0], [1, 1]]"
  by (simp add: product_repeat_def itertools_product_def py_range_def numeral_eq_Suc upt_rec)

end
