(* ===== verification/Column_Sums.thy ===== *)
theory Column_Sums
  imports Prelude
begin

text \<open>
  The Column Sum Checker, \<^verbatim>\<open>check_column_sums\<close> (\<^verbatim>\<open>src/main.py\<close>, lines 60--71).
  After the guard on an empty matrix or an empty first row, the source hands the
  matrix to NumPy: \<^verbatim>\<open>np.array(matrix_list)\<close>, \<^verbatim>\<open>sum(axis=0)\<close>, \<^verbatim>\<open>== target_sum\<close>,
  \<^verbatim>\<open>np.all\<close>. The model keeps what NumPy (1.24 and later) does with a list of lists
  of Python ints:
  \<^item> ragged rows make \<^verbatim>\<open>np.array\<close> raise \<^verbatim>\<open>ValueError\<close>; the source catches it,
    prints a message and returns \<^verbatim>\<open>False\<close>;
  \<^item> the array's dtype (\<open>np_array_dtype\<close>) is found as NumPy's array coercion finds
    it: each int is discovered as \<^verbatim>\<open>int64\<close> if it fits, else as \<^verbatim>\<open>uint64\<close> if it
    fits, else as \<^verbatim>\<open>object\<close>, and the discovered dtypes are promoted pairwise, the
    promotion of \<^verbatim>\<open>int64\<close> and \<^verbatim>\<open>uint64\<close> being \<^verbatim>\<open>float64\<close>;
  \<^item> \<^verbatim>\<open>int64\<close> and \<^verbatim>\<open>uint64\<close> column sums wrap modulo \<open>2^64\<close>: a sum of
    \<open>64 word\<close>s read back with \<open>sint\<close> or \<open>uint\<close>; \<^verbatim>\<open>object\<close> sums are exact;
  \<^item> a \<^verbatim>\<open>float64\<close> reduction along axis 0 adds the rows one after another, each
    addition rounded to the nearest double, ties to even (\<open>round_f64\<close>, on the
    integers that all values here are; the exponent is not bounded, which matters only
    past \<open>2^1024\<close>), and the target is converted to a double for the comparison.
  The result is the pair of the returned boolean and the messages printed.
\<close>

definition fits_int64 :: "int \<Rightarrow> bool" where
  "fits_int64 x \<longleftrightarrow> - (2 ^ 63) \<le> x \<and> x < 2 ^ 63"

definition fits_uint64 :: "int \<Rightarrow> bool" where
  "fits_uint64 x \<longleftrightarrow> 0 \<le> x \<and> x < 2 ^ 64"

definition column_sum :: "matrix \<Rightarrow> nat \<Rightarrow> int" where
  "column_sum m j = sum_list (map (\<lambda>r. r ! j) m)"

datatype np_dtype = Int64 | UInt64 | Float64 | Object

definition np_int_dtype :: "int \<Rightarrow> np_dtype" where
  "np_int_dtype x = (if fits_int64 x then Int64 else if fits_uint64 x then UInt64 else Object)"

fun np_promote :: "np_dtype \<Rightarrow> np_dtype \<Rightarrow> np_dtype" where
  "np_promote Object _ = Object"
| "np_promote _ Object = Object"
| "np_promote Float64 _ = Float64"
| "np_promote _ Float64 = Float64"
| "np_promote Int64 Int64 = Int64"
| "np_promote UInt64 UInt64 = UInt64"
| "np_promote Int64 UInt64 = Float64"
| "np_promote UInt64 Int64 = Float64"

definition np_array_dtype :: "matrix \<Rightarrow> np_dtype" where
  "np_array_dtype m =
     (case map np_int_dtype (concat m) of
        [] \<Rightarrow> Float64
      | d # ds \<Rightarrow> fold (\<lambda>d' acc. np_promote acc d') ds d)"

function bit_length :: "int \<Rightarrow> nat" where
  "bit_length n = (if n \<le> 0 then 0 else Suc (bit_length (n div 2)))"
  by auto
termination by (relation "measure nat") auto

definition round_f64 :: "int \<Rightarrow> int" where
  "round_f64 x =
     (let a = \<bar>x\<bar>; e = bit_length a - 53;
          q = a div 2 ^ e; r = a mod 2 ^ e;
          q' = (if 2 ^ e < 2 * r \<or> (2 * r = 2 ^ e \<and> odd q) then q + 1 else q)
      in sgn x * (q' * 2 ^ e))"

definition f64_column_sum :: "matrix \<Rightarrow> nat \<Rightarrow> int" where
  "f64_column_sum m j = fold (\<lambda>r acc. round_f64 (acc + round_f64 (r ! j))) (tl m) (round_f64 (hd m ! j))"

definition np_column_sums :: "matrix \<Rightarrow> int list" where
  "np_column_sums m =
     (case np_array_dtype m of
        Int64 \<Rightarrow> map (\<lambda>j. sint (sum_list (map (\<lambda>r. word_of_int (r ! j) :: 64 word) m))) [0..<length (hd m)]
      | UInt64 \<Rightarrow> map (\<lambda>j. uint (sum_list (map (\<lambda>r. word_of_int (r ! j) :: 64 word) m))) [0..<length (hd m)]
      | Float64 \<Rightarrow> map (f64_column_sum m) [0..<length (hd m)]
      | Object \<Rightarrow> map (column_sum m) [0..<length (hd m)])"

definition np_all_equal :: "matrix \<Rightarrow> int \<Rightarrow> bool option" where
  "np_all_equal m t =
     (if rectangular m
      then Some (list_all (\<lambda>s. s = (if np_array_dtype m = Float64 then round_f64 t else t)) (np_column_sums m))
      else None)"

definition check_column_sums :: "matrix \<Rightarrow> int \<Rightarrow> bool \<times> message list" where
  "check_column_sums matrix_list target_sum =
     (if matrix_list = [] \<or> hd matrix_list = [] then (False, [])
      else (case np_all_equal matrix_list target_sum of
              None \<Rightarrow> (False, [Err_column_sum_check])
            | Some b \<Rightarrow> (b, [])))"

subsection \<open>The dtype NumPy chooses\<close>

lemma fold_np_promote_same:
  "\<forall>d' \<in> set ds. d' = d \<Longrightarrow> d \<in> {Int64, UInt64} \<Longrightarrow> fold (\<lambda>d' acc. np_promote acc d') ds d = d"
  by (induction ds) auto

lemma np_promote_Object_right [simp]: "np_promote d Object = Object"
  by (cases d) simp_all

lemma fold_np_promote_Object: "fold (\<lambda>d' acc. np_promote acc d') ds Object = Object"
  by (induction ds) auto

lemma fold_np_promote_has_Object:
  "Object \<in> set ds \<Longrightarrow> fold (\<lambda>d' acc. np_promote acc d') ds d = Object"
proof (induction ds arbitrary: d)
  case (Cons d' ds)
  show ?case
  proof (cases "d' = Object")
    case True
    then show ?thesis by (simp add: fold_np_promote_Object)
  next
    case False
    with Cons show ?thesis by simp
  qed
qed simp

lemma fold_np_promote_Object_in:
  "Object \<in> set (d # ds) \<Longrightarrow> fold (\<lambda>d' acc. np_promote acc d') ds d = Object"
  by (cases "d = Object") (simp_all add: fold_np_promote_Object fold_np_promote_has_Object)

lemma np_array_dtype_Int64:
  assumes "m \<noteq> []" and "hd m \<noteq> []" and "list_all (list_all fits_int64) m"
  shows "np_array_dtype m = Int64"
proof -
  obtain x xs where c: "concat m = x # xs"
    using assms(1,2) by (cases m; cases "hd m") auto
  have "\<forall>y \<in> set (concat m). fits_int64 y" using assms(3) by (auto simp: list_all_iff)
  then show ?thesis
    by (simp add: np_array_dtype_def c np_int_dtype_def fold_np_promote_same)
qed

lemma np_array_dtype_UInt64:
  assumes "m \<noteq> []" and "hd m \<noteq> []" and "list_all (list_all (\<lambda>x. 2 ^ 63 \<le> x \<and> x < 2 ^ 64)) m"
  shows "np_array_dtype m = UInt64"
proof -
  obtain x xs where c: "concat m = x # xs"
    using assms(1,2) by (cases m; cases "hd m") auto
  have "\<forall>y \<in> set (concat m). 2 ^ 63 \<le> y \<and> y < 2 ^ 64" using assms(3) by (auto simp: list_all_iff)
  moreover have "np_int_dtype y = UInt64" if "2 ^ 63 \<le> y" and "y < 2 ^ 64" for y
    using that by (simp add: np_int_dtype_def fits_int64_def fits_uint64_def)
  ultimately have "\<forall>d \<in> set (map np_int_dtype (concat m)). d = UInt64"
    by (simp only: set_map ball_simps) blast
  then show ?thesis by (simp add: np_array_dtype_def c fold_np_promote_same)
qed

lemma np_array_dtype_Object:
  assumes "x \<in> set r" and "r \<in> set m" and "\<not> fits_int64 x" and "\<not> fits_uint64 x"
  shows "np_array_dtype m = Object"
proof -
  have o: "Object \<in> set (map np_int_dtype (concat m))"
    using assms by (force simp: np_int_dtype_def)
  then obtain d ds where "map np_int_dtype (concat m) = d # ds" by (cases "map np_int_dtype (concat m)") auto
  with o show ?thesis by (simp add: np_array_dtype_def fold_np_promote_Object_in)
qed

subsection \<open>Fixed-width column sums are exact sums modulo \<open>2^64\<close>\<close>

lemma sum_word_column: "sum_list (map (\<lambda>r. word_of_int (r ! j) :: 64 word) m) = word_of_int (column_sum m j)"
proof -
  have "sum_list (map (\<lambda>r. word_of_int (r ! j) :: 64 word) m)
          = sum_list (map of_int (map (\<lambda>r. r ! j) m))"
    by (simp add: comp_def)
  also have "\<dots> = word_of_int (column_sum m j)"
    by (simp only: sum_list_of_int column_sum_def)
  finally show ?thesis .
qed

lemma sint_sum_word_column:
  "sint (sum_list (map (\<lambda>r. word_of_int (r ! j) :: 64 word) m)) = signed_take_bit 63 (column_sum m j)"
  by (simp add: sum_word_column sint_sbintrunc')

lemma uint_sum_word_column:
  "uint (sum_list (map (\<lambda>r. word_of_int (r ! j) :: 64 word) m)) = column_sum m j mod 2 ^ 64"
  by (simp add: sum_word_column uint_word_of_int_eq take_bit_eq_mod)

lemma signed_take_bit_fits: "fits_int64 x \<Longrightarrow> signed_take_bit 63 x = x"
  by (simp add: fits_int64_def signed_take_bit_int_eq_self)

lemma signed_take_bit_63_mod: "signed_take_bit 63 (x :: int) = (x + 2 ^ 63) mod 2 ^ 64 - 2 ^ 63"
  by (simp add: signed_take_bit_eq_take_bit_shift take_bit_eq_mod)

lemma list_all_eq_nth: "list_all (\<lambda>s. s = t) xs \<longleftrightarrow> (\<forall>j < length xs. xs ! j = t)"
  by (auto simp: list_all_length)

lemma check_column_sums_rect:
  "m \<noteq> [] \<Longrightarrow> hd m \<noteq> [] \<Longrightarrow> rectangular m \<Longrightarrow>
   check_column_sums m t =
     (list_all (\<lambda>s. s = (if np_array_dtype m = Float64 then round_f64 t else t)) (np_column_sums m), [])"
  by (simp add: check_column_sums_def np_all_equal_def)

lemma check_column_sums_int64_np:
  assumes "m \<noteq> []" and "hd m \<noteq> []" and "rectangular m" and "list_all (list_all fits_int64) m"
  shows "check_column_sums m t = ((\<forall>j < length (hd m). signed_take_bit 63 (column_sum m j) = t), [])"
  using assms
  by (simp add: check_column_sums_rect np_array_dtype_Int64 np_column_sums_def list_all_eq_nth
      sint_sum_word_column)

subsection \<open>Behaviour of the checker\<close>

text \<open>
  C26: the checker accepts only a non-empty rectangular matrix with a non-empty
  first row, and prints nothing when it does; in particular a matrix with no rows or
  an empty first row is rejected (the specification's deliberate "vacuous false").
\<close>

theorem check_column_sums_accepts_only_wellformed:
  assumes "fst (check_column_sums m t)"
  shows "m \<noteq> [] \<and> hd m \<noteq> [] \<and> rectangular m \<and> snd (check_column_sums m t) = []"
  using assms
  by (auto simp: check_column_sums_def np_all_equal_def split: if_splits option.splits)

lemma check_column_sums_accepts_only_wellformed_witness:
  "fst (check_column_sums [[90, 10], [10, 90]] 100) \<and> rectangular [[90, 10], [10, 90 :: int]]
   \<and> \<not> fst (check_column_sums [] 100) \<and> \<not> fst (check_column_sums [[]] 100)"
proof -
  have a: "fst (check_column_sums [[90, 10], [10, 90]] 100)" by code_simp
  show ?thesis
    using check_column_sums_accepts_only_wellformed [OF a]
      check_column_sums_accepts_only_wellformed [of "[]" 100]
      check_column_sums_accepts_only_wellformed [of "[[]]" 100] a
    by auto
qed

text \<open>
  C25: a ragged matrix whose first row is not empty makes NumPy raise; the source
  prints an error and answers \<open>False\<close>, as if the sums were wrong.
\<close>

theorem check_column_sums_ragged:
  assumes "\<not> rectangular m" and "hd m \<noteq> []"
  shows "check_column_sums m t = (False, [Err_column_sum_check])"
proof -
  from assms(1) have "m \<noteq> []" by auto
  with assms show ?thesis by (simp add: check_column_sums_def np_all_equal_def)
qed

lemma check_column_sums_ragged_witness:
  "\<not> rectangular [[1, 2], [3 :: int]] \<and> hd [[1, 2], [3 :: int]] \<noteq> []
   \<and> check_column_sums [[1, 2], [3]] 100 = (False, [Err_column_sum_check])"
proof -
  have r: "\<not> rectangular [[1, 2], [3 :: int]]" by (simp add: rectangular_def)
  have h: "hd [[1, 2], [3 :: int]] \<noteq> []" by simp
  show ?thesis using check_column_sums_ragged [OF r h, of 100] r h by simp
qed

text \<open>
  C13: on a rectangular matrix of int64 entries, the check compares each column sum
  wrapped to a signed 64-bit value with the target: intermediate overflow is harmless,
  but a column whose exact sum lies outside the int64 range is compared modulo
  \<open>2^64\<close>.
\<close>

theorem check_column_sums_int64:
  assumes "rectangular m" and "m \<noteq> []" and "hd m \<noteq> []"
    and "list_all (list_all fits_int64) m"
  shows "check_column_sums m t =
           ((\<forall>j < length (hd m). (column_sum m j + 2 ^ 63) mod 2 ^ 64 - 2 ^ 63 = t), [])"
  using assms by (simp add: check_column_sums_int64_np signed_take_bit_63_mod)

lemma check_column_sums_int64_witness:
  "rectangular [[90, 10], [10, 90 :: int]] \<and> [[90, 10], [10, 90 :: int]] \<noteq> []
   \<and> hd [[90, 10], [10, 90 :: int]] \<noteq> [] \<and> list_all (list_all fits_int64) [[90, 10], [10, 90]]
   \<and> check_column_sums [[90, 10], [10, 90]] 100 = (True, [])"
proof -
  let ?m = "[[90, 10], [10, 90 :: int]]"
  have r: "rectangular ?m" by (simp add: rectangular_def)
  have f: "list_all (list_all fits_int64) ?m" by (simp add: fits_int64_def)
  have "\<forall>j < length (hd ?m). (column_sum ?m j + 2 ^ 63) mod 2 ^ 64 - 2 ^ 63 = (100 :: int)"
    by (simp add: column_sum_def All_less_Suc)
  with check_column_sums_int64 [OF r _ _ f, of 100] r f show ?thesis by simp
qed

text \<open>
  C14: on a rectangular matrix of int64 entries none of whose column sums leaves the
  int64 range, the check is the exact one: every column sums to the target.
\<close>

theorem check_column_sums_exact:
  assumes "rectangular m" and "m \<noteq> []" and "hd m \<noteq> []"
    and "list_all (list_all fits_int64) m"
    and "\<forall>j < length (hd m). fits_int64 (column_sum m j)"
  shows "check_column_sums m t = ((\<forall>j < length (hd m). column_sum m j = t), [])"
  using assms by (simp add: check_column_sums_int64_np signed_take_bit_fits)

lemma check_column_sums_exact_witness:
  "rectangular [[1, 2, 3], [3, 1, 2], [2, 3, 1 :: int]]
   \<and> list_all (list_all fits_int64) [[1, 2, 3], [3, 1, 2], [2, 3, 1]]
   \<and> column_sum [[1, 2, 3], [3, 1, 2], [2, 3, 1]] 2 = 6
   \<and> check_column_sums [[1, 2, 3], [3, 1, 2], [2, 3, 1]] 6 = (True, [])"
proof -
  let ?m = "[[1, 2, 3], [3, 1, 2], [2, 3, 1 :: int]]"
  have r: "rectangular ?m" by (simp add: rectangular_def)
  have e: "list_all (list_all fits_int64) ?m" by (simp add: fits_int64_def)
  have f: "\<forall>j < length (hd ?m). fits_int64 (column_sum ?m j)"
    by (simp add: All_less_Suc column_sum_def fits_int64_def)
  have s: "\<forall>j < length (hd ?m). column_sum ?m j = 6"
    by (simp add: All_less_Suc column_sum_def)
  show ?thesis
    using check_column_sums_exact [OF r _ _ e f, of 6] r e f s by simp
qed

text \<open>
  C15: on a rectangular matrix whose entries all lie in \<open>[2^63, 2^64)\<close>, NumPy makes an
  unsigned 64-bit array and the check compares each column sum modulo \<open>2^64\<close> with the
  target.
\<close>

theorem check_column_sums_uint64:
  assumes "rectangular m" and "m \<noteq> []" and "hd m \<noteq> []"
    and "list_all (list_all (\<lambda>x. 2 ^ 63 \<le> x \<and> x < 2 ^ 64)) m"
  shows "check_column_sums m t = ((\<forall>j < length (hd m). column_sum m j mod 2 ^ 64 = t), [])"
  using assms
  by (simp add: check_column_sums_rect np_array_dtype_UInt64 np_column_sums_def list_all_eq_nth
      uint_sum_word_column)

lemma check_column_sums_uint64_witness:
  "rectangular [[2 ^ 63 + 50], [2 ^ 63 + 50 :: int]]
   \<and> list_all (list_all (\<lambda>x. 2 ^ 63 \<le> x \<and> x < 2 ^ 64)) [[2 ^ 63 + 50], [2 ^ 63 + 50 :: int]]
   \<and> check_column_sums [[2 ^ 63 + 50], [2 ^ 63 + 50]] 100 = (True, [])
   \<and> column_sum [[2 ^ 63 + 50], [2 ^ 63 + 50]] 0 = 2 ^ 64 + 100"
proof -
  let ?m = "[[2 ^ 63 + 50], [2 ^ 63 + 50 :: int]]"
  have r: "rectangular ?m" by (simp add: rectangular_def)
  have b: "list_all (list_all (\<lambda>x. 2 ^ 63 \<le> x \<and> x < 2 ^ 64)) ?m" by simp
  have c: "column_sum ?m 0 = 2 ^ 64 + 100" by (simp add: column_sum_def)
  show ?thesis using check_column_sums_uint64 [OF r _ _ b, of 100] r b c by simp
qed

text \<open>
  C16: an entry outside both 64-bit ranges makes NumPy fall back to an \<^verbatim>\<open>object\<close>
  array of Python ints, and the check is then the exact one, whatever the other entries.
\<close>

theorem check_column_sums_object:
  assumes "rectangular m" and "m \<noteq> []" and "hd m \<noteq> []"
    and "x \<in> set r" and "r \<in> set m" and "\<not> fits_int64 x" and "\<not> fits_uint64 x"
  shows "check_column_sums m t = ((\<forall>j < length (hd m). column_sum m j = t), [])"
  using assms
  by (simp add: check_column_sums_rect np_array_dtype_Object [OF assms(4-7)] np_column_sums_def
      list_all_eq_nth)

lemma check_column_sums_object_witness:
  "rectangular [[2 ^ 64, 0], [100 - 2 ^ 64, 100 :: int]]
   \<and> \<not> fits_int64 (2 ^ 64) \<and> \<not> fits_uint64 (2 ^ 64)
   \<and> check_column_sums [[2 ^ 64, 0], [100 - 2 ^ 64, 100]] 100 = (True, [])"
proof -
  let ?m = "[[2 ^ 64, 0], [100 - 2 ^ 64, 100 :: int]]"
  have r: "rectangular ?m" by (simp add: rectangular_def)
  have n: "\<not> fits_int64 (2 ^ 64)" "\<not> fits_uint64 (2 ^ 64)" by (simp_all add: fits_int64_def fits_uint64_def)
  have s: "\<forall>j < length (hd ?m). column_sum ?m j = 100" by (simp add: All_less_Suc column_sum_def)
  show ?thesis
    using check_column_sums_object [of ?m "2 ^ 64" "[2 ^ 64, 0]" 100] r n s by simp
qed

text \<open>
  The wrap-around is observable: a column of two int64 maxima and 102 sums to
  \<open>2^64 + 100\<close>, yet the check accepts it as summing to 100.
\<close>

lemma check_column_sums_overflow:
  "check_column_sums [[2 ^ 63 - 1], [2 ^ 63 - 1], [102]] 100 = (True, [])
   \<and> column_sum [[2 ^ 63 - 1], [2 ^ 63 - 1], [102]] 0 = 2 ^ 64 + 100"
proof -
  let ?m = "[[2 ^ 63 - 1], [2 ^ 63 - 1], [102 :: int]]"
  have r: "rectangular ?m" by (simp add: rectangular_def)
  have f: "list_all (list_all fits_int64) ?m" by (simp add: fits_int64_def)
  have c: "column_sum ?m 0 = 2 ^ 64 + 100" by (simp add: column_sum_def)
  have "check_column_sums ?m 100 = ((column_sum ?m 0 + 2 ^ 63) mod 2 ^ 64 - 2 ^ 63 = 100, [])"
    using r f by (simp add: check_column_sums_int64_np signed_take_bit_63_mod)
  with c show ?thesis by simp
qed

text \<open>
  So is the rounding of a \<^verbatim>\<open>float64\<close> array: mixing \<open>2^63 + 1\<close>, which only
  \<^verbatim>\<open>uint64\<close> holds, with the negative \<open>-2^63\<close> makes NumPy convert the column to
  doubles; \<open>2^63 + 1\<close> rounds to \<open>2^63\<close>, and a column summing to 101 is accepted
  as summing to 100.
\<close>

lemma check_column_sums_float64_rounding:
  "np_array_dtype [[2 ^ 63 + 1], [- (2 ^ 63)], [100]] = Float64
   \<and> check_column_sums [[2 ^ 63 + 1], [- (2 ^ 63)], [100]] 100 = (True, [])
   \<and> column_sum [[2 ^ 63 + 1], [- (2 ^ 63)], [100]] 0 = 101"
  by code_simp

end
