(* ===== verification/Py_Builtins.thy ===== *)
theory Py_Builtins
  imports Prelude
begin

text \<open>
  The Python string operations the loader calls on line 29 of \<^verbatim>\<open>src/main.py\<close>,
  \<^verbatim>\<open>[int(val) for val in line.strip().split(',')]\<close>, and the
  \<^verbatim>\<open>startswith("//")\<close> of line 24, modelled from their documented behaviour on
  ASCII text: \<^verbatim>\<open>str.strip()\<close> removes the characters \<^verbatim>\<open>str.isspace\<close> accepts at
  both ends; \<^verbatim>\<open>str.split(',')\<close> cuts at every comma, keeping empty fields;
  \<^verbatim>\<open>int(s)\<close> accepts surrounding whitespace, an optional sign and decimal digits
  with single underscores between digits, and raises \<^verbatim>\<open>ValueError\<close> (here
  \<open>None\<close>) on anything else. The lemmas prove that splitting and joining at the
  separator are inverse, and that \<^verbatim>\<open>int\<close> reads back what \<^verbatim>\<open>str\<close> prints for any
  integer.
\<close>

definition py_isspace :: "char \<Rightarrow> bool" where
  "py_isspace c \<longleftrightarrow> of_char c \<in> {9, 10, 11, 12, 13, 28, 29, 30, 31, 32 :: nat}"

definition py_strip :: "string \<Rightarrow> string" where
  "py_strip s = rev (dropWhile py_isspace (rev (dropWhile py_isspace s)))"

fun py_split :: "char \<Rightarrow> string \<Rightarrow> string list" where
  "py_split d [] = [[]]"
| "py_split d (c # cs) =
     (if c = d then [] # py_split d cs
      else (case py_split d cs of [] \<Rightarrow> [[c]] | w # ws \<Rightarrow> (c # w) # ws))"

text \<open>\<^verbatim>\<open>sep.join(words)\<close> for a one-character separator.\<close>

fun py_join :: "char \<Rightarrow> string list \<Rightarrow> string" where
  "py_join d [] = []"
| "py_join d [w] = w"
| "py_join d (w # v # ws) = w @ d # py_join d (v # ws)"

definition py_startswith :: "string \<Rightarrow> string \<Rightarrow> bool" where
  "py_startswith s prefix \<longleftrightarrow> take (length prefix) s = prefix"

definition py_is_digit :: "char \<Rightarrow> bool" where
  "py_is_digit c \<longleftrightarrow> 48 \<le> (of_char c :: nat) \<and> (of_char c :: nat) \<le> 57"

definition digit_value :: "char \<Rightarrow> nat" where
  "digit_value c = of_char c - 48"

text \<open>Digits with single underscores between them: \<open>digit (_? digit)*\<close>.\<close>

fun digits_ok :: "string \<Rightarrow> bool" where
  "digits_ok [] = False"
| "digits_ok [c] = py_is_digit c"
| "digits_ok (c # d # cs) =
     (py_is_digit c \<and> (if d = CHR ''_'' then digits_ok cs else digits_ok (d # cs)))"

definition digits_value :: "string \<Rightarrow> nat" where
  "digits_value s = foldl (\<lambda>acc c. 10 * acc + digit_value c) 0 (filter py_is_digit s)"

text \<open>
  CPython limits the conversion between \<^verbatim>\<open>int\<close> and a decimal \<^verbatim>\<open>str\<close> to
  \<^verbatim>\<open>sys.get_int_max_str_digits()\<close> digits, 4300 by default (CPython 3.11 and the
  security releases of 3.7--3.10): \<^verbatim>\<open>int(s)\<close> raises \<^verbatim>\<open>ValueError\<close> when
  \<open>s\<close> holds more digits (underscores and sign not counted), and \<^verbatim>\<open>str(i)\<close> and
  f-strings raise it when \<open>i\<close> has more.
\<close>

definition py_int_max_str_digits :: nat where
  "py_int_max_str_digits = 4300"

definition int_digits_ok :: "string \<Rightarrow> bool" where
  "int_digits_ok ds \<longleftrightarrow> digits_ok ds \<and> length (filter py_is_digit ds) \<le> py_int_max_str_digits"

definition py_int :: "string \<Rightarrow> int option" where
  "py_int s =
     (case py_strip s of
        [] \<Rightarrow> None
      | c # r \<Rightarrow>
          if c = CHR ''-'' then (if int_digits_ok r then Some (- int (digits_value r)) else None)
          else if c = CHR ''+'' then (if int_digits_ok r then Some (int (digits_value r)) else None)
          else if int_digits_ok (c # r) then Some (int (digits_value (c # r))) else None)"

text \<open>
  The equations that evaluate the builtins on concrete strings, collected for the
  witnesses and examples of the components that call them.
\<close>

declare py_isspace_def [py_simps] py_strip_def [py_simps] py_startswith_def [py_simps]
  py_is_digit_def [py_simps] digit_value_def [py_simps] digits_value_def [py_simps]
  py_int_def [py_simps] int_digits_ok_def [py_simps] py_int_max_str_digits_def [py_simps]

subsection \<open>Printing integers: \<^verbatim>\<open>str(i)\<close>\<close>

definition digit_char :: "nat \<Rightarrow> char" where
  "digit_char n = char_of (48 + n)"

fun nat_digits :: "nat \<Rightarrow> string" where
  "nat_digits n = (if n < 10 then [digit_char n] else nat_digits (n div 10) @ [digit_char (n mod 10)])"

definition py_str_int :: "int \<Rightarrow> string" where
  "py_str_int i = (if i < 0 then CHR ''-'' # nat_digits (nat (- i)) else nat_digits (nat i))"

text \<open>Whether \<^verbatim>\<open>str(i)\<close> succeeds: \<open>i\<close> has at most 4300 decimal digits.\<close>

definition py_str_digits_ok :: "int \<Rightarrow> bool" where
  "py_str_digits_ok i \<longleftrightarrow> length (nat_digits (nat \<bar>i\<bar>)) \<le> py_int_max_str_digits"

subsection \<open>Reading a text file: \<^verbatim>\<open>open(filename, 'r').readlines()\<close>\<close>

text \<open>
  A file opened in text mode translates the line endings \<^verbatim>\<open>\r\n\<close> and \<^verbatim>\<open>\r\<close>
  to \<^verbatim>\<open>\n\<close> (universal newlines); \<^verbatim>\<open>readlines()\<close> then cuts the text after
  every \<^verbatim>\<open>\n\<close>, keeping it, and keeps a last line that has none. \<open>text_file\<close>
  is the contents of a file holding the given lines, each ended by \<^verbatim>\<open>\n\<close>.
\<close>

abbreviation char_LF :: char where "char_LF \<equiv> CHR 0x0A"

abbreviation char_CR :: char where "char_CR \<equiv> CHR 0x0D"

fun universal_newlines :: "string \<Rightarrow> string" where
  "universal_newlines [] = []"
| "universal_newlines [c] = [if c = char_CR then char_LF else c]"
| "universal_newlines (c # d # cs) =
     (if c = char_CR \<and> d = char_LF then char_LF # universal_newlines cs
      else (if c = char_CR then char_LF else c) # universal_newlines (d # cs))"

fun readlines_from :: "string \<Rightarrow> string \<Rightarrow> string list" where
  "readlines_from line [] = (if line = [] then [] else [line])"
| "readlines_from line (c # cs) =
     (if c = char_LF then (line @ [char_LF]) # readlines_from [] cs
      else readlines_from (line @ [c]) cs)"

definition py_readlines :: "string \<Rightarrow> string list" where
  "py_readlines text = readlines_from [] (universal_newlines text)"

text \<open>
  \<^verbatim>\<open>with open(filename, 'r') as f: lines = f.readlines()\<close> on an existing entry:
  the lines of a regular file, or the exception \<^verbatim>\<open>open\<close> raises for a directory or
  an unreadable file, or the one \<^verbatim>\<open>readlines\<close> raises for undecodable bytes.
\<close>

definition py_open_readlines :: "string \<Rightarrow> fs_entry \<Rightarrow> py_exception + string list" where
  "py_open_readlines filename entry =
     (case entry of
        Regular_file text \<Rightarrow> Inr (py_readlines text)
      | Directory \<Rightarrow> Inl (IsADirectoryError filename)
      | Unreadable_file \<Rightarrow> Inl (PermissionError filename)
      | Undecodable_file \<Rightarrow> Inl UnicodeDecodeError)"

definition text_file :: "string list \<Rightarrow> string" where
  "text_file lines = concat (map (\<lambda>l. l @ [char_LF]) lines)"

subsection \<open>Splitting and joining\<close>

lemma py_split_not_Nil [simp]: "py_split d s \<noteq> []"
  by (induction s) (auto split: list.split)

lemma py_join_Cons_Cons: "py_join d ((c # w) # ws) = c # py_join d (w # ws)"
  by (cases ws) simp_all

lemma py_split_Cons_other:
  "c \<noteq> d \<Longrightarrow> py_split d (c # cs) = (c # hd (py_split d cs)) # tl (py_split d cs)"
  by (cases "py_split d cs") simp_all

lemma py_split_append_no_sep:
  "d \<notin> set w \<Longrightarrow> py_split d (w @ rest) = (w @ hd (py_split d rest)) # tl (py_split d rest)"
proof (induction w)
  case Nil
  then show ?case by (cases "py_split d rest") simp_all
next
  case (Cons c w)
  then show ?case by (auto simp: py_split_Cons_other)
qed

lemma py_split_no_sep: "d \<notin> set w \<Longrightarrow> py_split d w = [w]"
  using py_split_append_no_sep [of d w "[]"] by simp

text \<open>
  Joining what \<^verbatim>\<open>split\<close> returned gives back the string, for every string.
\<close>

lemma py_join_py_split: "py_join d (py_split d s) = s"
proof (induction s)
  case Nil
  then show ?case by simp
next
  case (Cons c cs)
  show ?case
  proof (cases "c = d")
    case True
    moreover obtain v vs where "py_split d cs = v # vs"
      using py_split_not_Nil by (cases "py_split d cs") blast+
    ultimately show ?thesis using Cons.IH by simp
  next
    case False
    moreover obtain v vs where "py_split d cs = v # vs"
      using py_split_not_Nil by (cases "py_split d cs") blast+
    ultimately show ?thesis using Cons.IH by (simp add: py_join_Cons_Cons)
  qed
qed

text \<open>
  Splitting a join gives back the fields, when there is at least one field and no
  field contains the separator.
\<close>

lemma py_split_py_join:
  "ws \<noteq> [] \<Longrightarrow> \<forall>w \<in> set ws. d \<notin> set w \<Longrightarrow> py_split d (py_join d ws) = ws"
proof (induction d ws rule: py_join.induct)
  case (2 d w)
  then show ?case by (simp add: py_split_no_sep)
next
  case (3 d w v ws)
  then show ?case by (simp add: py_split_append_no_sep)
qed simp

subsection \<open>Reading back printed integers\<close>

declare nat_digits.simps [simp del]

lemma digit_char_is_digit: "k < 10 \<Longrightarrow> py_is_digit (digit_char k)"
  by (simp add: digit_char_def py_is_digit_def)

lemma digit_value_digit_char: "k < 10 \<Longrightarrow> digit_value (digit_char k) = k"
  by (simp add: digit_char_def digit_value_def)

lemma py_is_digit_not_space: "py_is_digit c \<Longrightarrow> \<not> py_isspace c"
  by (auto simp: py_is_digit_def py_isspace_def)

lemma py_is_digit_not_us: "py_is_digit c \<Longrightarrow> c \<noteq> CHR ''_''"
  by (auto simp: py_is_digit_def)

lemma nat_digits_not_Nil [simp]: "nat_digits n \<noteq> []"
  by (subst nat_digits.simps) simp

lemma nat_digits_are_digits: "\<forall>c \<in> set (nat_digits n). py_is_digit c"
proof (induction n rule: nat_digits.induct)
  case (1 n)
  then show ?case
    by (subst nat_digits.simps) (auto simp: digit_char_is_digit)
qed

lemma digits_ok_all_digits: "s \<noteq> [] \<Longrightarrow> \<forall>c \<in> set s. py_is_digit c \<Longrightarrow> digits_ok s"
  by (induction s rule: digits_ok.induct) (auto simp: py_is_digit_not_us)

lemma digits_value_snoc:
  "py_is_digit c \<Longrightarrow> digits_value (s @ [c]) = 10 * digits_value s + digit_value c"
  by (simp add: digits_value_def)

lemma digits_value_nat_digits: "digits_value (nat_digits n) = n"
proof (induction n rule: nat_digits.induct)
  case (1 n)
  show ?case
  proof (cases "n < 10")
    case True
    then show ?thesis
      by (subst nat_digits.simps) (simp add: digits_value_def digit_char_is_digit digit_value_digit_char)
  next
    case False
    then have "digits_value (nat_digits n) = 10 * (n div 10) + n mod 10"
      using "1.IH"
      by (subst nat_digits.simps) (simp add: digits_value_snoc digit_char_is_digit digit_value_digit_char)
    then show ?thesis by simp
  qed
qed

lemma py_strip_id:
  assumes "s \<noteq> []" and "\<not> py_isspace (hd s)" and "\<not> py_isspace (last s)"
  shows "py_strip s = s"
proof -
  have "dropWhile py_isspace s = s" using assms(1,2) by (cases s) simp_all
  moreover have "dropWhile py_isspace (rev s) = rev s"
    using assms(1,3) by (cases "rev s") (simp_all add: hd_rev [symmetric])
  ultimately show ?thesis by (simp add: py_strip_def)
qed

lemma last_nat_digits_digit: "py_is_digit (last (nat_digits n))"
  using nat_digits_are_digits [of n] last_in_set [OF nat_digits_not_Nil] by blast

lemma hd_nat_digits_digit: "py_is_digit (hd (nat_digits n))"
  using nat_digits_are_digits [of n] hd_in_set [OF nat_digits_not_Nil] by blast

lemma py_str_int_not_Nil [simp]: "py_str_int i \<noteq> []"
  by (simp add: py_str_int_def)

lemma py_str_int_hd_not_space: "\<not> py_isspace (hd (py_str_int i))"
proof (cases "i < 0")
  case True
  then show ?thesis by (simp add: py_str_int_def py_isspace_def)
next
  case False
  then show ?thesis by (simp add: py_str_int_def py_is_digit_not_space hd_nat_digits_digit)
qed

lemma py_str_int_last_not_space: "\<not> py_isspace (last (py_str_int i))"
  using last_nat_digits_digit by (auto simp: py_str_int_def py_is_digit_not_space)

lemma py_str_int_stripped: "py_strip (py_str_int i) = py_str_int i"
  by (rule py_strip_id) (simp_all add: py_str_int_hd_not_space py_str_int_last_not_space)

lemma digits_ok_nat_digits: "digits_ok (nat_digits n)"
  by (simp add: digits_ok_all_digits nat_digits_are_digits)

lemma length_nat_digits_le: "n < 10 ^ k \<Longrightarrow> 0 < k \<Longrightarrow> length (nat_digits n) \<le> k"
proof (induction n arbitrary: k rule: nat_digits.induct)
  case (1 n)
  show ?case
  proof (cases "n < 10")
    case True
    with "1.prems" show ?thesis by (subst nat_digits.simps) simp
  next
    case False
    then obtain k' where k: "k = Suc k'" and "0 < k'"
      using "1.prems" by (cases k; cases "k - 1") (auto simp: not_less)
    moreover have "n div 10 < 10 ^ k'" using "1.prems"(1) k by simp
    ultimately have "length (nat_digits (n div 10)) \<le> k'" using "1.IH" False by blast
    with False k show ?thesis by (subst nat_digits.simps) simp
  qed
qed

lemma py_str_digits_ok_int64: "\<bar>i\<bar> < 10 ^ 19 \<Longrightarrow> py_str_digits_ok i"
proof -
  assume "\<bar>i\<bar> < 10 ^ 19"
  then have "nat \<bar>i\<bar> < 10 ^ 19" by (simp add: nat_less_iff)
  then have "length (nat_digits (nat \<bar>i\<bar>)) \<le> 19" by (rule length_nat_digits_le) simp
  then show ?thesis by (simp add: py_str_digits_ok_def py_int_max_str_digits_def)
qed

lemma int_digits_ok_nat_digits:
  "length (nat_digits n) \<le> py_int_max_str_digits \<Longrightarrow> int_digits_ok (nat_digits n)"
  using nat_digits_are_digits [of n] by (simp add: int_digits_ok_def digits_ok_nat_digits)

lemma py_int_nat_digits:
  assumes "length (nat_digits n) \<le> py_int_max_str_digits"
  shows "py_int (nat_digits n) = Some (int n)"
proof -
  have strip: "py_strip (nat_digits n) = nat_digits n"
    using py_str_int_stripped [of "int n"] by (simp add: py_str_int_def)
  obtain c r where cr: "nat_digits n = c # r" by (cases "nat_digits n") simp_all
  have "py_is_digit c" using hd_nat_digits_digit [of n] cr by simp
  then have "c \<noteq> CHR ''-''" "c \<noteq> CHR ''+''" by (auto simp: py_is_digit_def)
  then show ?thesis
    using strip cr int_digits_ok_nat_digits [OF assms] digits_value_nat_digits [of n]
    by (simp add: py_int_def)
qed

text \<open>
  \<^verbatim>\<open>int(str(i)) == i\<close> for every integer \<^verbatim>\<open>str\<close> can print, sign included.
\<close>

lemma py_int_py_str_int:
  assumes "py_str_digits_ok i"
  shows "py_int (py_str_int i) = Some i"
proof (cases "i < 0")
  case True
  then have "py_strip (py_str_int i) = CHR ''-'' # nat_digits (nat (- i))"
    using py_str_int_stripped [of i] by (simp add: py_str_int_def)
  moreover have "length (nat_digits (nat (- i))) \<le> py_int_max_str_digits"
    using assms True by (simp add: py_str_digits_ok_def)
  ultimately show ?thesis
    using True int_digits_ok_nat_digits [of "nat (- i)"] digits_value_nat_digits [of "nat (- i)"]
    by (simp add: py_int_def)
next
  case False
  moreover have "length (nat_digits (nat i)) \<le> py_int_max_str_digits"
    using assms False by (simp add: py_str_digits_ok_def)
  ultimately show ?thesis using py_int_nat_digits [of "nat i"] by (simp add: py_str_int_def)
qed

lemma foldl_digits_less:
  "\<forall>c \<in> set ds. py_is_digit c \<Longrightarrow>
   foldl (\<lambda>acc c. 10 * acc + digit_value c) a ds < Suc a * 10 ^ length ds"
proof (induction ds arbitrary: a)
  case (Cons c ds)
  have "py_is_digit c" using Cons.prems by simp
  then have "digit_value c < 10" unfolding py_is_digit_def digit_value_def by arith
  then have "Suc (10 * a + digit_value c) * 10 ^ length ds \<le> (10 * Suc a) * 10 ^ length ds"
    by (intro mult_le_mono1) simp
  moreover have "(10 * Suc a) * 10 ^ length ds = Suc a * 10 ^ length (c # ds)"
    by (simp add: algebra_simps)
  ultimately have le: "Suc (10 * a + digit_value c) * 10 ^ length ds \<le> Suc a * 10 ^ length (c # ds)"
    by (rule ord_le_eq_trans)
  have "foldl (\<lambda>acc c. 10 * acc + digit_value c) (10 * a + digit_value c) ds
          < Suc (10 * a + digit_value c) * 10 ^ length ds"
    using Cons.IH Cons.prems by simp
  then show ?case using le by simp
qed simp

lemma digits_value_less: "digits_value s < 10 ^ length (filter py_is_digit s)"
  using foldl_digits_less [of "filter py_is_digit s" 0] by (simp add: digits_value_def)

lemma digits_ok_has_digit: "digits_ok s \<Longrightarrow> filter py_is_digit s \<noteq> []"
  by (induction s rule: digits_ok.induct) (auto split: if_splits)

lemma py_str_digits_ok_uminus [simp]: "py_str_digits_ok (- x) \<longleftrightarrow> py_str_digits_ok x"
  by (simp add: py_str_digits_ok_def)

lemma int_digits_ok_str_digits_ok:
  assumes "int_digits_ok ds"
  shows "py_str_digits_ok (int (digits_value ds))"
proof -
  have "0 < length (filter py_is_digit ds)"
    using assms digits_ok_has_digit by (simp add: int_digits_ok_def)
  with digits_value_less have "length (nat_digits (digits_value ds)) \<le> length (filter py_is_digit ds)"
    by (rule length_nat_digits_le)
  then show ?thesis using assms by (simp add: py_str_digits_ok_def int_digits_ok_def)
qed

text \<open>Every integer that \<^verbatim>\<open>int\<close> accepts, \<^verbatim>\<open>str\<close> can print back.\<close>

lemma py_int_str_digits_ok: "py_int s = Some x \<Longrightarrow> py_str_digits_ok x"
  by (auto simp: py_int_def int_digits_ok_str_digits_ok split: list.splits if_splits)

lemma comma_not_digit: "\<not> py_is_digit CHR '',''"
  by (simp add: py_is_digit_def)

lemma py_str_int_no_comma: "CHR '','' \<notin> set (py_str_int i)"
  using nat_digits_are_digits comma_not_digit by (auto simp: py_str_int_def)

lemma py_str_int_chars: "c \<in> set (py_str_int i) \<Longrightarrow> py_is_digit c \<or> c = CHR ''-''"
  using nat_digits_are_digits by (auto simp: py_str_int_def split: if_splits)

lemma set_py_join: "set (py_join d ws) \<subseteq> insert d (\<Union>w \<in> set ws. set w)"
  by (induction d ws rule: py_join.induct) auto

lemma py_join_not_Nil: "ws \<noteq> [] \<Longrightarrow> hd ws \<noteq> [] \<Longrightarrow> py_join d ws \<noteq> []"
  by (induction d ws rule: py_join.induct) simp_all

lemma py_join_hd: "ws \<noteq> [] \<Longrightarrow> hd ws \<noteq> [] \<Longrightarrow> hd (py_join d ws) = hd (hd ws)"
  by (induction d ws rule: py_join.induct) simp_all

lemma py_join_last:
  "ws \<noteq> [] \<Longrightarrow> \<forall>w \<in> set ws. w \<noteq> [] \<Longrightarrow> last (py_join d ws) = last (last ws)"
  by (induction d ws rule: py_join.induct) (simp_all add: py_join_not_Nil)

subsection \<open>Reading lines\<close>

lemma universal_newlines_id: "char_CR \<notin> set s \<Longrightarrow> universal_newlines s = s"
  by (induction s rule: universal_newlines.induct) auto

lemma universal_newlines_Nil_iff [simp]: "universal_newlines s = [] \<longleftrightarrow> s = []"
  by (cases s rule: universal_newlines.cases) simp_all

lemma readlines_from_Nil_iff [simp]: "readlines_from l s = [] \<longleftrightarrow> l = [] \<and> s = []"
  by (induction l s rule: readlines_from.induct) simp_all

lemma py_readlines_Nil_iff [simp]: "py_readlines s = [] \<longleftrightarrow> s = []"
  by (simp add: py_readlines_def)

lemma concat_readlines_from: "concat (readlines_from l s) = l @ s"
  by (induction l s rule: readlines_from.induct) simp_all

lemma concat_py_readlines: "concat (py_readlines s) = universal_newlines s"
  by (simp add: py_readlines_def concat_readlines_from)

lemma readlines_from_append_line:
  "char_LF \<notin> set w \<Longrightarrow> readlines_from l (w @ char_LF # s) = (l @ w @ [char_LF]) # readlines_from [] s"
  by (induction w arbitrary: l) auto

lemma readlines_from_text_file:
  "\<forall>w \<in> set ws. char_LF \<notin> set w \<Longrightarrow> readlines_from [] (text_file ws) = map (\<lambda>w. w @ [char_LF]) ws"
  by (induction ws) (simp_all add: text_file_def readlines_from_append_line)

lemma py_readlines_text_file:
  assumes "\<forall>w \<in> set ws. char_LF \<notin> set w \<and> char_CR \<notin> set w"
  shows "py_readlines (text_file ws) = map (\<lambda>w. w @ [char_LF]) ws"
proof -
  have "char_CR \<notin> set (text_file ws)" using assms by (auto simp: text_file_def)
  then show ?thesis using assms by (simp add: py_readlines_def universal_newlines_id readlines_from_text_file)
qed

lemma py_strip_snoc_space: "py_isspace c \<Longrightarrow> py_strip (s @ [c]) = py_strip s"
  by (induction s) (auto simp: py_strip_def dropWhile_append)

end
