(* ===== verification/Loader.thy ===== *)
theory Loader
  imports Py_Builtins
begin

text \<open>
  The Matrix Loader, \<^verbatim>\<open>read_matrix\<close> (\<^verbatim>\<open>src/main.py\<close>, lines 5--45). The file
  system is a map from file names to entries; \<^verbatim>\<open>open\<close> and \<^verbatim>\<open>readlines()\<close>
  (\<open>py_open_readlines\<close>, theory \<open>Py_Builtins\<close>) give the lines of a regular file
  or raise. An exception, which the function does not catch, is \<open>Inl\<close>; otherwise the
  messages printed are returned with the result, \<open>None\<close> standing for the
  \<^verbatim>\<open>return None\<close> of every error path. The parsing loop (lines 27--33) is
  \<open>parse_lines\<close>, one recursive call per line, a line that \<^verbatim>\<open>int\<close> rejects being
  skipped with a warning. The lemmas show that the rows loaded are the lines that
  parse, in order; that a successful load is a non-empty rectangular matrix with
  non-empty rows, which is the precondition the search engine relies on; and that a
  matrix written one row per line, as comma-separated decimals, is read back as it
  was written.
\<close>

definition parse_row :: "string \<Rightarrow> row option" where
  "parse_row line = those (map py_int (py_split CHR '','' (py_strip line)))"

fun parse_lines :: "string list \<Rightarrow> message list \<times> matrix" where
  "parse_lines [] = ([], [])"
| "parse_lines (line # lines) =
     (case parse_lines lines of
        (warnings, rows) \<Rightarrow>
          (case parse_row line of
             None \<Rightarrow> (Warn_skip_line (py_strip line) # warnings, rows)
           | Some row \<Rightarrow> (warnings, row # rows)))"

definition read_matrix ::
  "filesystem \<Rightarrow> string \<Rightarrow> py_exception + message list \<times> matrix option" where
  "read_matrix fs filename =
     (case fs filename of
        None \<Rightarrow> Inr ([Err_file_not_found filename], None)
      | Some entry \<Rightarrow>
          (case py_open_readlines filename entry of
             Inl exc \<Rightarrow> Inl exc
           | Inr lines \<Rightarrow>
               if lines = [] then Inr ([Err_file_empty filename], None)
               else
                 (let start_line = (if py_startswith (py_strip (hd lines)) ''//'' then 1 else 0)
                  in case parse_lines (drop start_line lines) of
                       (warnings, matrix) \<Rightarrow>
                         if matrix = [] then Inr (warnings @ [Err_no_data], None)
                         else if \<not> rectangular matrix then Inr (warnings @ [Err_inconsistent_columns], None)
                         else Inr (warnings, Some matrix))))"

definition comment_skip :: "string list \<Rightarrow> nat" where
  "comment_skip lines = (if py_startswith (py_strip (hd lines)) ''//'' then 1 else 0)"

fun loader_message :: "message \<Rightarrow> bool" where
  "loader_message (Err_file_not_found _) = True"
| "loader_message (Err_file_empty _) = True"
| "loader_message (Warn_skip_line _) = True"
| "loader_message Err_no_data = True"
| "loader_message Err_inconsistent_columns = True"
| "loader_message _ = False"

text \<open>The file a matrix is written to: one line per row, its entries in decimal separated by commas.\<close>

definition write_matrix :: "matrix \<Rightarrow> string" where
  "write_matrix m = text_file (map (\<lambda>r. py_join CHR '','' (map py_str_int r)) m)"

subsection \<open>Rows and warnings\<close>

lemma those_length: "those xs = Some ys \<Longrightarrow> length ys = length xs"
  by (induction xs arbitrary: ys) (auto split: option.splits)

lemma those_map_Some: "those (map Some xs) = Some xs"
  by (induction xs) simp_all

lemma parse_row_not_Nil: "parse_row line = Some r \<Longrightarrow> r \<noteq> []"
proof -
  assume "parse_row line = Some r"
  then have "length r = length (py_split CHR '','' (py_strip line))"
    by (simp add: parse_row_def those_length)
  then show "r \<noteq> []" by auto
qed

text \<open>The rows are the lines that parse, in order; the warnings name the others.\<close>

lemma parse_lines_eq:
  "parse_lines ls =
     (map (\<lambda>l. Warn_skip_line (py_strip l)) (filter (\<lambda>l. parse_row l = None) ls),
      List.map_filter parse_row ls)"
  by (induction ls) (auto simp: map_filter_simps split: option.split)

lemma parse_lines_rows_not_Nil:
  "r \<in> set (snd (parse_lines ls)) \<Longrightarrow> r \<noteq> []"
proof -
  assume "r \<in> set (snd (parse_lines ls))"
  then obtain l where "parse_row l = Some r" by (auto simp: parse_lines_eq map_filter_def)
  then show "r \<noteq> []" by (rule parse_row_not_Nil)
qed

lemma parse_lines_warnings:
  "x \<in> set (fst (parse_lines ls)) \<Longrightarrow> \<exists>l. x = Warn_skip_line l"
  by (auto simp: parse_lines_eq)

subsection \<open>Outcomes of a load\<close>

lemma read_matrix_cases:
  "read_matrix fs fn =
     (case fs fn of
        None \<Rightarrow> Inr ([Err_file_not_found fn], None)
      | Some entry \<Rightarrow>
          (case py_open_readlines fn entry of
             Inl exc \<Rightarrow> Inl exc
           | Inr lines \<Rightarrow>
               if lines = [] then Inr ([Err_file_empty fn], None)
               else
                 (let body = drop (comment_skip lines) lines;
                      warnings = map (\<lambda>l. Warn_skip_line (py_strip l)) (filter (\<lambda>l. parse_row l = None) body);
                      rows = List.map_filter parse_row body
                  in if rows = [] then Inr (warnings @ [Err_no_data], None)
                     else if \<not> rectangular rows then Inr (warnings @ [Err_inconsistent_columns], None)
                     else Inr (warnings, Some rows))))"
  by (simp add: read_matrix_def comment_skip_def parse_lines_eq Let_def split: option.split sum.split)

lemma read_matrix_loader_messages:
  "read_matrix fs fn = Inr (w, r) \<Longrightarrow> x \<in> set w \<Longrightarrow> loader_message x"
  by (auto simp: read_matrix_cases Let_def split: option.splits sum.splits if_splits)

lemma read_matrix_SomeE:
  assumes "read_matrix fs fn = Inr (w, Some m)"
  obtains entry lines where "fs fn = Some entry" and "py_open_readlines fn entry = Inr lines"
    and "parse_lines (drop (comment_skip lines) lines) = (w, m)"
    and "m \<noteq> []" and "rectangular m"
  using assms
  by (auto simp: read_matrix_def comment_skip_def Let_def split: option.splits sum.splits if_splits prod.splits)

text \<open>
  C19: a successful load is a non-empty rectangular matrix whose rows are not
  empty (each line has at least one field), and everything printed on the way is a
  warning about a skipped line.
\<close>

theorem read_matrix_ok:
  assumes "read_matrix fs fn = Inr (w, Some m)"
  shows "m \<noteq> [] \<and> rectangular m \<and> (\<forall>r \<in> set m. r \<noteq> [])
         \<and> (\<forall>x \<in> set w. \<exists>l. x = Warn_skip_line l)"
proof -
  obtain lines where p: "parse_lines (drop (comment_skip lines) lines) = (w, m)"
    and "m \<noteq> []" and "rectangular m"
    using assms by (rule read_matrix_SomeE)
  moreover have "\<forall>r \<in> set m. r \<noteq> []"
    using parse_lines_rows_not_Nil [of _ "drop (comment_skip lines) lines"] p by simp
  moreover have "\<forall>x \<in> set w. \<exists>l. x = Warn_skip_line l"
    using parse_lines_warnings [of _ "drop (comment_skip lines) lines"] p by simp
  ultimately show ?thesis by blast
qed

lemma read_matrix_ok_witness:
  "read_matrix [''matrix.txt'' \<mapsto> Regular_file (''// shifts'' @ [char_CR, char_LF] @ ''1,2'' @ [char_CR, char_LF] @ ''x'')] ''matrix.txt''
     = Inr ([Warn_skip_line ''x''], Some [[1, 2]])
   \<and> [[1, 2 :: int]] \<noteq> [] \<and> rectangular [[1, 2 :: int]]"
proof -
  have r: "read_matrix [''matrix.txt'' \<mapsto> Regular_file (''// shifts'' @ [char_CR, char_LF] @ ''1,2'' @ [char_CR, char_LF] @ ''x'')] ''matrix.txt''
             = Inr ([Warn_skip_line ''x''], Some [[1, 2]])"
    by code_simp
  show ?thesis using read_matrix_ok [OF r] r by simp
qed

lemma those_SomeD: "those xs = Some ys \<Longrightarrow> y \<in> set ys \<Longrightarrow> Some y \<in> set xs"
  by (induction xs arbitrary: ys) (auto split: option.splits)

text \<open>
  C22: every entry of a loaded matrix has at most 4300 decimal digits, because
  \<^verbatim>\<open>int\<close> rejects longer literals (the line is skipped with a warning). So the
  \<^verbatim>\<open>print(r)\<close> of line 115, which converts the entries back to decimal, never
  raises CPython's \<^verbatim>\<open>ValueError\<close> for too many digits.
\<close>

theorem read_matrix_entries_printable:
  assumes "read_matrix fs fn = Inr (w, Some m)" and "r \<in> set m" and "x \<in> set r"
  shows "py_str_digits_ok x"
proof -
  obtain lines where p: "parse_lines (drop (comment_skip lines) lines) = (w, m)"
    using assms(1) by (rule read_matrix_SomeE)
  then obtain l where "parse_row l = Some r"
    using assms(2) by (auto simp: parse_lines_eq map_filter_def)
  then have "Some x \<in> set (map py_int (py_split CHR '','' (py_strip l)))"
    using assms(3) those_SomeD [of "map py_int (py_split CHR '','' (py_strip l))" r x]
    by (simp only: parse_row_def)
  then obtain v where "py_int v = Some x" by auto
  then show ?thesis by (rule py_int_str_digits_ok)
qed

lemma read_matrix_entries_printable_witness:
  "read_matrix [''matrix.txt'' \<mapsto> Regular_file (text_file [''-7,12''])] ''matrix.txt'' = Inr ([], Some [[-7, 12]])
   \<and> py_str_digits_ok (-7)"
proof -
  have r: "read_matrix [''matrix.txt'' \<mapsto> Regular_file (text_file [''-7,12''])] ''matrix.txt''
             = Inr ([], Some [[-7, 12]])" by code_simp
  show ?thesis using read_matrix_entries_printable [OF r, of "[-7, 12]" "-7"] r by simp
qed

text \<open>
  C20: a failed load prints exactly one error, last, after the warnings about skipped
  lines: file missing, file empty, no parsable line, or rows of different lengths.
\<close>

theorem read_matrix_error:
  assumes "read_matrix fs fn = Inr (w, None)"
  shows "w \<noteq> []
         \<and> last w \<in> {Err_file_not_found fn, Err_file_empty fn, Err_no_data, Err_inconsistent_columns}
         \<and> (\<forall>x \<in> set (butlast w). \<exists>l. x = Warn_skip_line l)"
  using assms
  by (auto simp: read_matrix_cases Let_def split: option.splits sum.splits if_splits)

lemma read_matrix_error_witness:
  "read_matrix [''matrix.txt'' \<mapsto> Regular_file (text_file [''1,2,3'', ''1,2''])] ''matrix.txt''
     = Inr ([Err_inconsistent_columns], None)
   \<and> last [Err_inconsistent_columns] = Err_inconsistent_columns"
proof -
  have r: "read_matrix [''matrix.txt'' \<mapsto> Regular_file (text_file [''1,2,3'', ''1,2''])] ''matrix.txt''
             = Inr ([Err_inconsistent_columns], None)"
    by code_simp
  show ?thesis using read_matrix_error [OF r] r by simp
qed

text \<open>
  C21: the exceptions of file access. Loading raises, and prints nothing, exactly when
  the name exists and is a directory (\<^verbatim>\<open>IsADirectoryError\<close> from \<^verbatim>\<open>open\<close>), a
  file the process may not read (\<^verbatim>\<open>PermissionError\<close> from \<^verbatim>\<open>open\<close>) or a file
  that does not decode (\<^verbatim>\<open>UnicodeDecodeError\<close> from \<^verbatim>\<open>readlines\<close>);
  \<^verbatim>\<open>read_matrix\<close> catches none of them.
\<close>

theorem read_matrix_exception:
  "read_matrix fs fn = Inl exc \<longleftrightarrow>
     (fs fn = Some Directory \<and> exc = IsADirectoryError fn)
     \<or> (fs fn = Some Unreadable_file \<and> exc = PermissionError fn)
     \<or> (fs fn = Some Undecodable_file \<and> exc = UnicodeDecodeError)"
  by (auto simp: read_matrix_cases py_open_readlines_def Let_def
      split: option.splits fs_entry.splits if_splits)

lemma set_universal_newlines: "set (universal_newlines s) \<subseteq> insert char_LF (set s)"
  by (induction s rule: universal_newlines.induct) auto

lemma py_strip_all_space: "\<forall>c \<in> set l. py_isspace c \<Longrightarrow> py_strip l = []"
  by (auto simp: py_strip_def dest: set_dropWhileD)

lemma parse_row_blank: "\<forall>c \<in> set l. py_isspace c \<Longrightarrow> parse_row l = None"
  by (simp add: parse_row_def py_strip_all_space py_int_def)

lemma py_readlines_blank:
  assumes "\<forall>c \<in> set txt. py_isspace c" and "l \<in> set (py_readlines txt)"
  shows "\<forall>c \<in> set l. py_isspace c"
proof
  fix c assume "c \<in> set l"
  with assms(2) have "c \<in> set (concat (py_readlines txt))" by auto
  then have "c = char_LF \<or> c \<in> set txt"
    using set_universal_newlines [of "txt"] by (auto simp: concat_py_readlines)
  with assms(1) show "py_isspace c" by (auto simp: py_isspace_def)
qed

text \<open>
  C24: blank lines. A non-empty file holding only whitespace is not reported as empty:
  each of its lines, stripped to the empty string, fails \<^verbatim>\<open>int('')\<close> and is
  skipped with the warning "Could not parse line: . Skipping.", and the load fails
  with "No valid matrix data".
\<close>

theorem read_matrix_blank_lines:
  assumes "fs fn = Some (Regular_file txt)" and "txt \<noteq> []" and "\<forall>c \<in> set txt. py_isspace c"
  shows "read_matrix fs fn =
           Inr (replicate (length (py_readlines txt)) (Warn_skip_line []) @ [Err_no_data], None)"
proof -
  let ?ls = "py_readlines txt"
  have ne: "?ls \<noteq> []" using assms(2) by simp
  have blank: "\<forall>c \<in> set l. py_isspace c" if "l \<in> set ?ls" for l
    using assms(3) that by (rule py_readlines_blank)
  have "py_strip (hd ?ls) = []" using blank [OF hd_in_set [OF ne]] by (rule py_strip_all_space)
  then have skip: "comment_skip ?ls = 0" by (simp add: comment_skip_def py_startswith_def)
  have none: "filter (\<lambda>l. parse_row l = None) ?ls = ?ls" using blank by (simp add: parse_row_blank)
  have rows: "List.map_filter parse_row ?ls = []" using blank by (simp add: map_filter_def parse_row_blank)
  have warn: "map (\<lambda>l. Warn_skip_line (py_strip l)) ?ls = replicate (length ?ls) (Warn_skip_line [])"
    using blank by (simp add: py_strip_all_space map_replicate_const [symmetric] cong: map_cong)
  show ?thesis
    using assms(1) ne by (simp add: read_matrix_cases py_open_readlines_def skip none rows warn Let_def)
qed

lemma read_matrix_blank_lines_witness:
  "[''matrix.txt'' \<mapsto> Regular_file [CHR '' '', char_LF, char_LF]] ''matrix.txt'' = Some (Regular_file [CHR '' '', char_LF, char_LF])
   \<and> [CHR '' '', char_LF, char_LF] \<noteq> [] \<and> py_isspace CHR '' '' \<and> py_isspace char_LF
   \<and> read_matrix [''matrix.txt'' \<mapsto> Regular_file [CHR '' '', char_LF, char_LF]] ''matrix.txt''
       = Inr ([Warn_skip_line [], Warn_skip_line [], Err_no_data], None)"
proof -
  have s: "\<forall>c \<in> set [CHR '' '', char_LF, char_LF]. py_isspace c" by (simp add: py_isspace_def)
  have l: "length (py_readlines [CHR '' '', char_LF, char_LF]) = 2" by code_simp
  show ?thesis
    using read_matrix_blank_lines [of "[''matrix.txt'' \<mapsto> Regular_file [CHR '' '', char_LF, char_LF]]"
        "''matrix.txt''" "[CHR '' '', char_LF, char_LF]"] s l
    by (simp add: numeral_2_eq_2)
qed

subsection \<open>Reading back a written matrix\<close>

text \<open>
  A row written as its integers in decimal separated by commas, as
  \<^verbatim>\<open>','.join(map(str, row))\<close> writes it, is already stripped, holds no line
  break, does not look like a comment, and is parsed back to the same row.
\<close>

lemma row_text_chars:
  "c \<in> set (py_join CHR '','' (map py_str_int r)) \<Longrightarrow> c = CHR '','' \<or> c = CHR ''-'' \<or> py_is_digit c"
  using set_py_join [of "CHR '',''" "map py_str_int r"] py_str_int_chars by fastforce

lemma row_text_no_newline:
  "char_LF \<notin> set (py_join CHR '','' (map py_str_int r)) \<and> char_CR \<notin> set (py_join CHR '','' (map py_str_int r))"
  using row_text_chars [of char_LF r] row_text_chars [of char_CR r] by (auto simp: py_is_digit_def)

lemma row_text_stripped:
  assumes "r \<noteq> []"
  shows "py_strip (py_join CHR '','' (map py_str_int r)) = py_join CHR '','' (map py_str_int r)"
  using assms
  by (intro py_strip_id)
     (simp_all add: py_join_hd py_join_last hd_map last_map py_join_not_Nil
        py_str_int_hd_not_space py_str_int_last_not_space)

lemma parse_row_newline: "parse_row (l @ [char_LF]) = parse_row l"
  by (simp add: parse_row_def py_strip_snoc_space py_isspace_def)

lemma row_text_not_comment:
  assumes "r \<noteq> []"
  shows "\<not> py_startswith (py_strip (py_join CHR '','' (map py_str_int r) @ [char_LF])) ''//''"
proof
  let ?w = "py_join CHR '','' (map py_str_int r)"
  assume "py_startswith (py_strip (?w @ [char_LF])) ''//''"
  then have "take (Suc (Suc 0)) ?w = ''//''" using assms
    by (simp add: py_strip_snoc_space py_isspace_def row_text_stripped py_startswith_def)
  then have "?w \<noteq> [] \<and> hd ?w = CHR ''/''" by (cases ?w) simp_all
  then have "CHR ''/'' \<in> set ?w" using hd_in_set by metis
  then show False using row_text_chars [of "CHR ''/''" r] by (simp add: py_is_digit_def)
qed

lemma parse_row_roundtrip:
  assumes "r \<noteq> []" and "\<forall>x \<in> set r. py_str_digits_ok x"
  shows "parse_row (py_join CHR '','' (map py_str_int r)) = Some r"
proof -
  let ?ws = "map py_str_int r"
  have ws: "?ws \<noteq> []" using assms by simp
  have split: "py_split CHR '','' (py_join CHR '','' ?ws) = ?ws"
    using ws by (simp add: py_split_py_join py_str_int_no_comma)
  have ints: "map py_int ?ws = map Some r"
    using assms(2) by (induction r) (simp_all add: py_int_py_str_int)
  show ?thesis
    by (simp only: parse_row_def row_text_stripped [OF assms(1)] split ints those_map_Some)
qed

text \<open>
  C23: round trip through a file. A non-empty rectangular matrix with non-empty rows
  and entries of at most 4300 digits (the most CPython's \<^verbatim>\<open>int\<close> reads),
  written one row per line with its entries in decimal separated by commas, is loaded
  back as the same matrix, with no warning. In particular its first line is kept:
  the code skips a first line only when it starts with \<^verbatim>\<open>//\<close>, not always as
  the docstring of \<^verbatim>\<open>read_matrix\<close> says.
\<close>

theorem read_matrix_roundtrip:
  assumes "fs fn = Some (Regular_file (write_matrix m))" and "m \<noteq> []" and "rectangular m"
    and "\<forall>r \<in> set m. r \<noteq> []" and "\<forall>r \<in> set m. \<forall>x \<in> set r. py_str_digits_ok x"
  shows "read_matrix fs fn = Inr ([], Some m)"
proof -
  let ?ws = "map (\<lambda>r. py_join CHR '','' (map py_str_int r)) m"
  let ?lines = "map (\<lambda>w. w @ [char_LF]) ?ws"
  have lines: "py_readlines (write_matrix m) = ?lines"
    unfolding write_matrix_def by (rule py_readlines_text_file) (auto simp: row_text_no_newline)
  have ne: "?lines \<noteq> []" using assms(2) by simp
  have skip: "\<not> py_startswith (py_strip (hd ?lines)) ''//''"
    using assms(2,4) by (cases m) (simp_all add: row_text_not_comment)
  have rows: "parse_lines ?lines = ([], m)"
    using assms(4,5) by (induction m) (simp_all add: parse_row_newline parse_row_roundtrip)
  show ?thesis
    using assms(1-3) lines ne skip rows by (simp add: read_matrix_def py_open_readlines_def)
qed

lemma read_matrix_roundtrip_witness:
  "[''matrix.txt'' \<mapsto> Regular_file (write_matrix [[1, -20], [30, 4]])] ''matrix.txt'' = Some (Regular_file (write_matrix [[1, -20], [30, 4]]))
   \<and> rectangular [[1, -20], [30, 4 :: int]]
   \<and> read_matrix [''matrix.txt'' \<mapsto> Regular_file (write_matrix [[1, -20], [30, 4]])] ''matrix.txt''
       = Inr ([], Some [[1, -20], [30, 4]])"
  using read_matrix_roundtrip [of "[''matrix.txt'' \<mapsto> Regular_file (write_matrix [[1, -20], [30, 4]])]" "''matrix.txt''"
      "[[1, -20], [30, 4]]"]
  by (simp add: rectangular_def py_str_digits_ok_int64)

end
