(* ===== verification/Search.thy ===== *)
theory Search
  imports Shift Enumeration Column_Sums Loader
begin

text \<open>
  The Shift Search Engine, \<^verbatim>\<open>solve_matrix_problem\<close> (\<^verbatim>\<open>src/main.py\<close>, lines
  73--118), and the abstract search of the specification it implements.
  \<^item> \<open>shift_matrix\<close> builds the candidate matrix (lines 104--108): row \<open>i\<close> of
    the original shifted by position \<open>i\<close> of the assignment.
  \<^item> \<open>search_loop\<close> is the \<^verbatim>\<open>for\<close> loop of lines 100--116 as structural
    recursion over the remaining candidates, with the index \<open>i\<close> of
    \<^verbatim>\<open>enumerate\<close>: it prints progress every 5000 candidates, checks the candidate
    with \<^verbatim>\<open>check_column_sums(..., 100)\<close>, prints the solution and stops at the first
    success, and prints "no solution" when the candidates run out.
  \<^item> \<open>solve_matrix_problem\<close> is the whole program on a file system: load, the two
    "cannot solve" guards, the announcement of \<open>C ^ R\<close> combinations (whose
    f-string raises an uncaught \<^verbatim>\<open>ValueError\<close> when \<open>C ^ R\<close> has more than
    4300 digits), the loop.
  \<^item> \<open>search_spec\<close> is the specification's \<^verbatim>\<open>search(matrix, target)\<close>: the first
    assignment, in the canonical counting order, whose shifted matrix has every
    column summing exactly to the target; \<open>Exhausted\<close> if there is none;
    \<open>Cannot_solve\<close> for a matrix with no rows or no columns.
  The refinement theorem states the program's whole output for any file that loads
  into a matrix of int64 entries no candidate of which has a column sum outside the
  int64 range (\<open>no_column_overflow\<close>, implied by \<open>int64_safe\<close>, a bound on the
  row maxima), and whose number \<open>C ^ R\<close> of candidates can be printed.
\<close>

definition shift_matrix :: "matrix \<Rightarrow> shifts \<Rightarrow> matrix" where
  "shift_matrix original_matrix shift_combination =
     map (\<lambda>row_idx. shift_row (original_matrix ! row_idx) (shift_combination ! row_idx))
       [0..<length original_matrix]"

definition progress_message :: "nat \<Rightarrow> nat \<Rightarrow> message list" where
  "progress_message i total_combinations =
     (if (i + 1) mod 5000 = 0 then [Progress (i + 1) total_combinations] else [])"

fun search_loop :: "matrix \<Rightarrow> nat \<Rightarrow> nat \<Rightarrow> shifts list \<Rightarrow> message list" where
  "search_loop original_matrix total_combinations i [] = [No_solution]"
| "search_loop original_matrix total_combinations i (shift_combination # rest) =
     progress_message i total_combinations @
     (let shifted_matrix_list = shift_matrix original_matrix shift_combination
      in case check_column_sums shifted_matrix_list 100 of
           (found, errors) \<Rightarrow>
             errors @
             (if found then [Solution_found shift_combination shifted_matrix_list]
              else search_loop original_matrix total_combinations (Suc i) rest))"

definition solve_matrix_problem :: "filesystem \<Rightarrow> string \<Rightarrow> message list" where
  "solve_matrix_problem fs filename =
     (case read_matrix fs filename of
        Inl exc \<Rightarrow> [Uncaught exc]
      | Inr (out, None) \<Rightarrow> out @ [Exit_read_error]
      | Inr (out, Some original_matrix) \<Rightarrow>
          out @
          (let num_rows = length original_matrix
           in if num_rows = 0 then [Matrix_empty]
              else
                let num_cols = length (original_matrix ! 0)
                in if num_cols = 0 then [Matrix_rows_empty]
                   else
                     let total_combinations = num_cols ^ num_rows
                     in if \<not> py_str_digits_ok (int total_combinations)
                        then [Uncaught ValueError_int_str_digits]
                        else Trying total_combinations #
                          search_loop original_matrix total_combinations 0
                            (product_repeat (py_range num_cols) num_rows)))"

text \<open>The script's entry point, \<^verbatim>\<open>if __name__ == "__main__"\<close> (lines 120--121).\<close>

definition main_entry :: "filesystem \<Rightarrow> message list" where
  "main_entry fs = solve_matrix_problem fs ''matrix.txt''"

subsection \<open>The specification's search\<close>

datatype search_result = Found shifts matrix | Exhausted | Cannot_solve

definition columns_sum_to :: "matrix \<Rightarrow> int \<Rightarrow> bool" where
  "columns_sum_to m t \<longleftrightarrow>
     m \<noteq> [] \<and> hd m \<noteq> [] \<and> list_all (\<lambda>j. column_sum m j = t) [0..<length (hd m)]"

text \<open>
  The candidates, in the order the program enumerates them: that this is the
  specification's canonical counting order is a theorem (\<open>candidates_sorted\<close>),
  not an assumption.
\<close>

abbreviation candidates :: "nat \<Rightarrow> nat \<Rightarrow> shifts list" where
  "candidates num_rows num_cols \<equiv> product_repeat (py_range num_cols) num_rows"

definition search_spec :: "matrix \<Rightarrow> int \<Rightarrow> search_result" where
  "search_spec m t =
     (if m = [] \<or> hd m = [] then Cannot_solve
      else case find (\<lambda>s. columns_sum_to (shift_matrix m s) t) (candidates (length m) (length (hd m))) of
             None \<Rightarrow> Exhausted
           | Some s \<Rightarrow> Found s (shift_matrix m s))"

definition checked_count :: "matrix \<Rightarrow> int \<Rightarrow> nat" where
  "checked_count m t =
     n_checked (\<lambda>s. columns_sum_to (shift_matrix m s) t) (candidates (length m) (length (hd m)))"

definition progress_trace :: "nat \<Rightarrow> nat \<Rightarrow> nat \<Rightarrow> message list" where
  "progress_trace i k total_combinations =
     concat (map (\<lambda>j. progress_message j total_combinations) [i..<i + k])"

text \<open>
  A bound under which NumPy's int64 column sums are exact: the largest magnitudes of
  the rows add up to less than \<open>2^63\<close>, whatever the shifts.
\<close>

definition row_bound :: "row \<Rightarrow> int" where
  "row_bound r = foldr (\<lambda>x acc. max \<bar>x\<bar> acc) r 0"

definition int64_safe :: "matrix \<Rightarrow> bool" where
  "int64_safe m \<longleftrightarrow> sum_list (map row_bound m) < 2 ^ 63"

text \<open>
  The condition under which NumPy's check is the exact one on every candidate the loop
  may examine: the entries fit in int64, so that the array has dtype int64, and no
  column of any candidate matrix sums to a value outside the int64 range.
\<close>

definition no_column_overflow :: "matrix \<Rightarrow> bool" where
  "no_column_overflow m \<longleftrightarrow>
     list_all (list_all fits_int64) m \<and>
     list_all (\<lambda>s. list_all (\<lambda>j. fits_int64 (column_sum (shift_matrix m s) j)) [0..<length (hd m)])
       (candidates (length m) (length (hd m)))"

subsection \<open>Candidate matrices\<close>

lemma shift_matrix_length [simp]: "length (shift_matrix m s) = length m"
  by (simp add: shift_matrix_def)

lemma shift_matrix_nth:
  "i < length m \<Longrightarrow> shift_matrix m s ! i = shift_row (m ! i) (s ! i)"
  by (simp add: shift_matrix_def)

lemma shift_matrix_Nil_iff [simp]: "shift_matrix m s = [] \<longleftrightarrow> m = []"
  by (simp add: shift_matrix_def)

lemma hd_shift_matrix: "m \<noteq> [] \<Longrightarrow> hd (shift_matrix m s) = shift_row (hd m) (s ! 0)"
  by (simp add: hd_conv_nth shift_matrix_nth)

lemma shift_matrix_list_all:
  assumes "list_all (list_all P) m"
  shows "list_all (list_all P) (shift_matrix m s)"
proof -
  have "\<forall>x \<in> set (shift_row (m ! i) (s ! i)). P x" if "i < length m" for i
    using assms nth_mem [OF that] by (simp add: list_all_iff)
  then show ?thesis by (simp add: shift_matrix_def list_all_iff)
qed

lemma shift_matrix_rectangular:
  assumes "rectangular m"
  shows "rectangular (shift_matrix m s)"
proof (cases "m = []")
  case True
  then show ?thesis by (simp add: shift_matrix_def)
next
  case False
  have hd_len: "length (hd (shift_matrix m s)) = length (hd m)"
    using False by (simp add: hd_shift_matrix)
  have "length r = length (hd (shift_matrix m s))" if "r \<in> set (shift_matrix m s)" for r
  proof -
    from that obtain i where i': "i < length (shift_matrix m s)" and r: "r = shift_matrix m s ! i"
      by (auto simp only: in_set_conv_nth)
    from i' have i: "i < length m" by simp
    have "m ! i \<in> set m" using i by simp
    with assms have "length (m ! i) = length (hd m)" by (rule rectangular_width)
    with i r hd_len show ?thesis by (simp add: shift_matrix_nth)
  qed
  then show ?thesis by (simp add: rectangular_iff)
qed

lemma column_sum_shift_matrix:
  "column_sum (shift_matrix m s) j = sum_list (map (\<lambda>i. shift_row (m ! i) (s ! i) ! j) [0..<length m])"
  by (simp add: column_sum_def shift_matrix_def comp_def)

lemma row_bound_ge: "x \<in> set r \<Longrightarrow> \<bar>x\<bar> \<le> row_bound r"
  by (induction r) (auto simp: row_bound_def)

lemma row_bound_nonneg: "0 \<le> row_bound r"
  by (induction r) (auto simp: row_bound_def)

lemma row_bound_le_sum: "r \<in> set m \<Longrightarrow> row_bound r \<le> sum_list (map row_bound m)"
  by (rule member_le_sum_list) (auto simp: row_bound_nonneg)

lemma int64_safe_entries:
  assumes "int64_safe m"
  shows "list_all (list_all fits_int64) m"
proof -
  have "fits_int64 x" if "r \<in> set m" and "x \<in> set r" for r x
  proof -
    have "\<bar>x\<bar> \<le> sum_list (map row_bound m)"
      using row_bound_ge [OF that(2)] row_bound_le_sum [OF that(1)] by linarith
    with assms show ?thesis by (auto simp: int64_safe_def fits_int64_def)
  qed
  then show ?thesis by (simp add: list_all_iff)
qed

lemma sum_list_row_bound: "sum_list (map row_bound m) = sum_list (map (\<lambda>i. row_bound (m ! i)) [0..<length m])"
  by (subst map_nth [symmetric]) (simp only: map_map comp_def)

text \<open>
  Under \<open>int64_safe\<close> every column of every candidate matrix sums to a value
  inside the int64 range.
\<close>

lemma int64_safe_column_fits:
  assumes "int64_safe m" and "rectangular m" and "j < length (hd m)"
  shows "fits_int64 (column_sum (shift_matrix m s) j)"
proof -
  have "\<bar>shift_row (m ! i) (s ! i) ! j\<bar> \<le> row_bound (m ! i)" if "i \<in> set [0..<length m]" for i
  proof -
    have i: "i < length m" using that by simp
    then have "length (m ! i) = length (hd m)" using assms(2) by (simp add: rectangular_width)
    then have "shift_row (m ! i) (s ! i) ! j \<in> set (m ! i)"
      using assms(3) by (metis nth_mem shift_row_length shift_row_set)
    then show ?thesis by (rule row_bound_ge)
  qed
  then have "\<bar>column_sum (shift_matrix m s) j\<bar> \<le> sum_list (map row_bound m)"
    by (simp only: column_sum_shift_matrix sum_list_row_bound abs_sum_list_le)
  with assms(1) show ?thesis by (auto simp: int64_safe_def fits_int64_def)
qed

subsection \<open>The loop\<close>

lemma progress_trace_Suc:
  "progress_message i tot @ progress_trace (Suc i) k tot = progress_trace i (Suc k) tot"
  by (simp add: progress_trace_def upt_rec)

lemma progress_trace_one: "progress_trace i (Suc 0) tot = progress_message i tot"
  by (simp add: progress_trace_def)

text \<open>
  The loop's output: the progress messages of the candidates it examines, then the
  solution message for the first candidate the check accepts, or "no solution".
  The hypothesis says the check prints nothing on these candidates.
\<close>

lemma search_loop_eq:
  assumes "\<And>s. s \<in> set cs \<Longrightarrow> check_column_sums (shift_matrix m s) 100 = (P s, [])"
  shows "search_loop m tot i cs =
           progress_trace i (n_checked P cs) tot @
           (case find P cs of None \<Rightarrow> [No_solution] | Some s \<Rightarrow> [Solution_found s (shift_matrix m s)])"
  using assms
proof (induction cs arbitrary: i)
  case Nil
  then show ?case by (simp add: progress_trace_def)
next
  case (Cons c cs)
  then have c: "check_column_sums (shift_matrix m c) 100 = (P c, [])" by simp
  show ?case
  proof (cases "P c")
    case True
    with c show ?thesis by (simp add: progress_trace_one)
  next
    case False
    with c Cons.IH [of "Suc i"] Cons.prems show ?thesis
      by (simp add: progress_trace_Suc [symmetric])
  qed
qed

subsection \<open>From the code's check to the specification's\<close>

lemma candidates_set:
  "s \<in> set (candidates r c) \<longleftrightarrow> length s = r \<and> set s \<subseteq> {0..<int c}"
  by (simp add: set_product_repeat py_range_set)

lemma candidates_sorted: "sorted_wrt (<) (candidates r c)"
  by (simp add: sorted_product_repeat py_range_sorted)

lemma columns_sum_to_iff:
  "columns_sum_to m t \<longleftrightarrow> m \<noteq> [] \<and> hd m \<noteq> [] \<and> (\<forall>j < length (hd m). column_sum m j = t)"
  by (auto simp: columns_sum_to_def list_all_iff)

text \<open>
  On a candidate matrix of a loaded matrix whose column sums fit in int64, the code's
  check prints nothing and answers exactly the specification's question.
\<close>

lemma check_shift_matrix_spec:
  assumes "m \<noteq> []" and "hd m \<noteq> []" and "rectangular m" and "list_all (list_all fits_int64) m"
    and "\<forall>j < length (hd m). fits_int64 (column_sum (shift_matrix m s) j)"
  shows "check_column_sums (shift_matrix m s) t = (columns_sum_to (shift_matrix m s) t, [])"
proof -
  let ?M = "shift_matrix m s"
  have ne: "?M \<noteq> []" "hd ?M \<noteq> []" using assms(1,2) by (simp_all add: hd_shift_matrix)
  have w: "length (hd ?M) = length (hd m)" using assms(1) by (simp add: hd_shift_matrix)
  have r: "rectangular ?M" using assms(3) by (rule shift_matrix_rectangular)
  have f: "list_all (list_all fits_int64) ?M" using assms(4) by (rule shift_matrix_list_all)
  have "signed_take_bit 63 (column_sum ?M j) = column_sum ?M j" if "j < length (hd ?M)" for j
    using that w assms(5) by (simp add: signed_take_bit_fits)
  then show ?thesis
    using ne r f by (simp add: check_column_sums_int64_np columns_sum_to_iff)
qed

lemma int64_safe_no_overflow:
  assumes "rectangular m" and "int64_safe m"
  shows "no_column_overflow m"
  using int64_safe_column_fits [OF assms(2,1)] int64_safe_entries [OF assms(2)]
  by (simp add: no_column_overflow_def list_all_iff)

text \<open>
  C17: the row-maximum bound is enough for the check to be exact: on a non-empty
  rectangular matrix with a non-empty first row whose row maxima in magnitude sum to
  less than \<open>2^63\<close>, NumPy's check of every shifted matrix prints nothing and holds
  exactly when every column of the shifted matrix sums to the target.
\<close>

theorem int64_safe_check_exact:
  assumes "rectangular m" and "m \<noteq> []" and "hd m \<noteq> []" and "int64_safe m"
  shows "check_column_sums (shift_matrix m s) t = (columns_sum_to (shift_matrix m s) t, [])"
proof -
  have "\<forall>j < length (hd m). fits_int64 (column_sum (shift_matrix m s) j)"
    using int64_safe_column_fits [OF assms(4,1)] by blast
  with assms show ?thesis by (intro check_shift_matrix_spec) (simp_all add: int64_safe_entries)
qed

lemma int64_safe_check_exact_witness:
  "rectangular [[60, 40], [60, 40 :: int]] \<and> int64_safe [[60, 40], [60, 40]]
   \<and> check_column_sums (shift_matrix [[60, 40], [60, 40]] [0, 1]) 100 = (True, [])
   \<and> check_column_sums (shift_matrix [[60, 40], [60, 40]] [0, 0]) 100 = (False, [])"
proof -
  have r: "rectangular [[60, 40], [60, 40 :: int]]" by (simp add: rectangular_def)
  have s: "int64_safe [[60, 40], [60, 40]]" by (simp add: int64_safe_def row_bound_def)
  have a: "columns_sum_to (shift_matrix [[60, 40], [60, 40]] [0, 1]) 100" by code_simp
  have b: "\<not> columns_sum_to (shift_matrix [[60, 40], [60, 40]] [0, 0]) 100" by code_simp
  show ?thesis
    using int64_safe_check_exact [OF r _ _ s, of "[0, 1]" 100]
      int64_safe_check_exact [OF r _ _ s, of "[0, 0]" 100] r s a b by simp
qed

text \<open>
  The weaker condition is strictly weaker: two rows of magnitude \<open>2^62\<close> break the
  row-maximum bound, yet no column of any candidate leaves the int64 range.
\<close>

lemma no_column_overflow_not_int64_safe:
  "\<not> int64_safe [[4611686018427387904, 0], [-4611686018427387904, 0]]
   \<and> no_column_overflow [[4611686018427387904, 0], [-4611686018427387904, 0]]"
  by (simp add: int64_safe_def row_bound_def no_column_overflow_def product_repeat_def
      itertools_product_def py_range_def numeral_eq_Suc upt_rec shift_matrix_def shift_row_rotate
      column_sum_def fits_int64_def)

lemma solve_matrix_problem_loaded:
  assumes "read_matrix fs fn = Inr (w, Some m)"
  shows "m \<noteq> [] \<and> hd m \<noteq> [] \<and> rectangular m
         \<and> solve_matrix_problem fs fn =
             w @ (if \<not> py_str_digits_ok (int (length (hd m) ^ length m))
                  then [Uncaught ValueError_int_str_digits]
                  else Trying (length (hd m) ^ length m) #
                    search_loop m (length (hd m) ^ length m) 0 (candidates (length m) (length (hd m))))"
proof -
  obtain lines where p: "parse_lines (drop (comment_skip lines) lines) = (w, m)"
    and ne: "m \<noteq> []" and r: "rectangular m"
    using assms by (rule read_matrix_SomeE)
  have "hd m \<noteq> []"
    using parse_lines_rows_not_Nil [of "hd m" "drop (comment_skip lines) lines"] p ne by simp
  with ne r assms show ?thesis
    by (simp add: solve_matrix_problem_def hd_conv_nth Let_def)
qed

lemma solve_matrix_problem_printable:
  assumes "read_matrix fs fn = Inr (w, Some m)" and "py_str_digits_ok (int (length (hd m) ^ length m))"
  shows "m \<noteq> [] \<and> hd m \<noteq> [] \<and> rectangular m
         \<and> solve_matrix_problem fs fn =
             w @ Trying (length (hd m) ^ length m) #
             search_loop m (length (hd m) ^ length m) 0 (candidates (length m) (length (hd m)))"
  using solve_matrix_problem_loaded [OF assms(1)] assms(2) by simp

text \<open>
  The output of a run on a loaded matrix without column overflow: the loader's warnings, the
  number of candidates, the progress lines of the candidates examined, and the
  verdict of a linear search for the first candidate whose columns sum to 100.
\<close>

lemma solve_matrix_problem_trace:
  assumes "read_matrix fs fn = Inr (w, Some m)" and "no_column_overflow m"
    and "py_str_digits_ok (int (length (hd m) ^ length m))"
  shows "m \<noteq> [] \<and> hd m \<noteq> [] \<and>
         solve_matrix_problem fs fn =
           w @ Trying (length (hd m) ^ length m) #
           progress_trace 0 (checked_count m 100) (length (hd m) ^ length m) @
           (case find (\<lambda>s. columns_sum_to (shift_matrix m s) 100) (candidates (length m) (length (hd m))) of
              None \<Rightarrow> [No_solution]
            | Some s \<Rightarrow> [Solution_found s (shift_matrix m s)])"
proof -
  let ?P = "\<lambda>s. columns_sum_to (shift_matrix m s) 100"
  let ?cs = "candidates (length m) (length (hd m))"
  let ?tot = "length (hd m) ^ length m"
  have ne: "m \<noteq> []" "hd m \<noteq> []" and r: "rectangular m"
    and solve: "solve_matrix_problem fs fn = w @ Trying ?tot # search_loop m ?tot 0 ?cs"
    using solve_matrix_problem_printable [OF assms(1,3)] by simp_all
  have chk: "check_column_sums (shift_matrix m s) 100 = (?P s, [])" if "s \<in> set ?cs" for s
    using assms(2) that ne r
    by (intro check_shift_matrix_spec) (simp_all add: no_column_overflow_def list_all_iff)
  have "search_loop m ?tot 0 ?cs =
          progress_trace 0 (n_checked ?P ?cs) ?tot @
          (case find ?P ?cs of None \<Rightarrow> [No_solution] | Some s \<Rightarrow> [Solution_found s (shift_matrix m s)])"
    by (rule search_loop_eq) (rule chk)
  with solve ne show ?thesis by (simp add: checked_count_def)
qed

subsection \<open>The program implements the specification\<close>

text \<open>
  C1: refinement. For a file that loads into a matrix of int64 entries none of whose
  candidates has a column sum outside the int64 range, so that NumPy's sums are exact,
  and whose number \<open>C ^ R\<close> of candidates has at most 4300 digits, so that line 98
  can print it, the program prints the loader's warnings, the number \<open>C ^ R\<close> of
  combinations, a progress line for every 5000th candidate among those the
  specification's search examines, and then the specification's answer: the solution
  it finds, or "no solution" when it is exhausted; the "cannot solve" answer never
  arises.
\<close>

theorem solve_matrix_problem_refines:
  assumes "read_matrix fs fn = Inr (w, Some m)" and "no_column_overflow m"
    and "py_str_digits_ok (int (length (hd m) ^ length m))"
  shows "search_spec m 100 \<noteq> Cannot_solve \<and>
         solve_matrix_problem fs fn =
           w @ Trying (length (hd m) ^ length m) #
           progress_trace 0 (checked_count m 100) (length (hd m) ^ length m) @
           (case search_spec m 100 of Found s m' \<Rightarrow> [Solution_found s m'] | _ \<Rightarrow> [No_solution])"
  using solve_matrix_problem_trace [OF assms]
  by (simp add: search_spec_def split: option.split)

lemma solve_matrix_problem_refines_witness:
  "read_matrix [''matrix.txt'' \<mapsto> Regular_file (text_file [''1,2'', ''1,2''])] ''matrix.txt'' = Inr ([], Some [[1, 2], [1, 2]])
   \<and> no_column_overflow [[1, 2], [1, 2]]
   \<and> py_str_digits_ok (int (length (hd [[1, 2], [1, 2 :: int]]) ^ length [[1, 2], [1, 2 :: int]]))
   \<and> search_spec [[1, 2], [1, 2]] 100 \<noteq> Cannot_solve"
proof -
  have r: "read_matrix [''matrix.txt'' \<mapsto> Regular_file (text_file [''1,2'', ''1,2''])] ''matrix.txt'' = Inr ([], Some [[1, 2], [1, 2]])"
    by code_simp
  have s: "no_column_overflow [[1, 2], [1, 2]]" by code_simp
  have d: "py_str_digits_ok (int (length (hd [[1, 2], [1, 2 :: int]]) ^ length [[1, 2], [1, 2 :: int]]))"
    by (simp add: py_str_digits_ok_int64)
  show ?thesis using solve_matrix_problem_refines [OF r s d] r s d by simp
qed

text \<open>
  What the specification's search finds: the shifted matrix of its assignment, one
  shift in \<open>[0, C)\<close> per row, every column summing to the target, and no
  lexicographically smaller assignment that works.
\<close>

lemma search_spec_found_least:
  assumes "search_spec m t = Found s m'"
  shows "m' = shift_matrix m s \<and> length s = length m \<and> set s \<subseteq> {0..<int (length (hd m))}
         \<and> columns_sum_to m' t
         \<and> (\<forall>s'. length s' = length m \<and> set s' \<subseteq> {0..<int (length (hd m))} \<and> s' < s
                \<longrightarrow> \<not> columns_sum_to (shift_matrix m s') t)"
proof -
  let ?P = "\<lambda>s. columns_sum_to (shift_matrix m s) t"
  let ?cs = "candidates (length m) (length (hd m))"
  have f: "find ?P ?cs = Some s" and m': "m' = shift_matrix m s"
    using assms by (auto simp: search_spec_def split: if_splits option.splits)
  have "s \<in> set ?cs" and "?P s" using find_Some_set [OF f] by simp_all
  moreover have "\<not> ?P s'" if "length s' = length m" "set s' \<subseteq> {0..<int (length (hd m))}" "s' < s" for s'
    using find_sorted_least [OF candidates_sorted f] that by (simp add: candidates_set)
  ultimately show ?thesis using m' by (simp add: candidates_set)
qed

lemma search_spec_exhausted:
  "search_spec m t = Exhausted \<longleftrightarrow>
      m \<noteq> [] \<and> hd m \<noteq> [] \<and>
      (\<forall>s. length s = length m \<and> set s \<subseteq> {0..<int (length (hd m))}
           \<longrightarrow> \<not> columns_sum_to (shift_matrix m s) t)"
proof -
  let ?P = "\<lambda>s. columns_sum_to (shift_matrix m s) t"
  let ?cs = "candidates (length m) (length (hd m))"
  have "search_spec m t = Exhausted \<longleftrightarrow> m \<noteq> [] \<and> hd m \<noteq> [] \<and> find ?P ?cs = None"
    by (auto simp: search_spec_def split: option.split)
  moreover have "find ?P ?cs = None \<longleftrightarrow>
      (\<forall>s. length s = length m \<and> set s \<subseteq> {0..<int (length (hd m))} \<longrightarrow> \<not> ?P s)"
    by (auto simp: find_None_iff candidates_set)
  ultimately show ?thesis by simp
qed

lemma checked_count_exhausted:
  "search_spec m t = Exhausted \<Longrightarrow> checked_count m t = length (hd m) ^ length m"
  by (auto simp: search_spec_def checked_count_def n_checked_None split: if_splits option.splits)

subsection \<open>What the program never prints\<close>

lemma check_shift_matrix_no_error:
  assumes "m \<noteq> []" and "hd m \<noteq> []" and "rectangular m"
  shows "check_column_sums (shift_matrix m s) t = (fst (check_column_sums (shift_matrix m s) t), [])"
proof -
  have "shift_matrix m s \<noteq> []" "hd (shift_matrix m s) \<noteq> []"
    using assms(1,2) by (simp_all add: hd_shift_matrix)
  with shift_matrix_rectangular [OF assms(3)] show ?thesis by (simp add: check_column_sums_rect)
qed

lemma progress_trace_set: "x \<in> set (progress_trace i k tot) \<Longrightarrow> \<exists>n. x = Progress n tot"
  by (auto simp: progress_trace_def progress_message_def split: if_splits)

lemma search_loop_messages:
  assumes "m \<noteq> []" and "hd m \<noteq> []" and "rectangular m"
    and "x \<in> set (search_loop m tot i cs)"
  shows "(\<exists>n. x = Progress n tot) \<or> (\<exists>s m'. x = Solution_found s m') \<or> x = No_solution"
proof -
  let ?P = "\<lambda>s. fst (check_column_sums (shift_matrix m s) 100)"
  have "search_loop m tot i cs =
          progress_trace i (n_checked ?P cs) tot @
          (case find ?P cs of None \<Rightarrow> [No_solution] | Some s \<Rightarrow> [Solution_found s (shift_matrix m s)])"
    by (rule search_loop_eq) (rule check_shift_matrix_no_error [OF assms(1-3)])
  with assms(4) show ?thesis by (auto dest: progress_trace_set split: option.splits)
qed

text \<open>
  Every message a run prints: the loader's, "exiting", the number of candidates,
  progress, a solution, "no solution", or the traceback of an exception, which is then
  the last line: an exception from the loader is the whole output, and the
  \<^verbatim>\<open>ValueError\<close> of line 98 follows the loader's warnings.
\<close>

lemma solve_matrix_problem_messages:
  "x \<in> set (solve_matrix_problem fs fn) \<Longrightarrow>
     loader_message x \<or> x = Exit_read_error \<or> (\<exists>n. x = Trying n) \<or> (\<exists>n t. x = Progress n t)
     \<or> (\<exists>s m'. x = Solution_found s m') \<or> x = No_solution
     \<or> (\<exists>exc. x = Uncaught exc \<and> read_matrix fs fn = Inl exc \<and> solve_matrix_problem fs fn = [x])
     \<or> (x = Uncaught ValueError_int_str_digits \<and>
        (\<exists>w m. read_matrix fs fn = Inr (w, Some m) \<and> \<not> py_str_digits_ok (int (length (hd m) ^ length m))
               \<and> solve_matrix_problem fs fn = w @ [x]))"
proof (cases "read_matrix fs fn")
  case (Inl exc)
  assume "x \<in> set (solve_matrix_problem fs fn)"
  with Inl show ?thesis by (simp add: solve_matrix_problem_def)
next
  case (Inr wr)
  assume x: "x \<in> set (solve_matrix_problem fs fn)"
  obtain w r where wr: "read_matrix fs fn = Inr (w, r)" using Inr by (cases wr) simp
  have w: "loader_message x" if "x \<in> set w" for x
    using read_matrix_loader_messages [OF wr] that .
  show ?thesis
  proof (cases r)
    case None
    then have "solve_matrix_problem fs fn = w @ [Exit_read_error]"
      using wr by (simp add: solve_matrix_problem_def)
    with x have "x \<in> set w \<or> x = Exit_read_error" by auto
    with w show ?thesis by blast
  next
    case (Some m)
    let ?tot = "length (hd m) ^ length m"
    let ?loop = "search_loop m ?tot 0 (candidates (length m) (length (hd m)))"
    have l: "m \<noteq> [] \<and> hd m \<noteq> [] \<and> rectangular m
         \<and> solve_matrix_problem fs fn =
             w @ (if \<not> py_str_digits_ok (int ?tot) then [Uncaught ValueError_int_str_digits]
                  else Trying ?tot # ?loop)"
      using wr Some solve_matrix_problem_loaded by simp
    show ?thesis
    proof (cases "py_str_digits_ok (int ?tot)")
      case False
      with l have "solve_matrix_problem fs fn = w @ [Uncaught ValueError_int_str_digits]" by simp
      with x w wr Some False show ?thesis by auto
    next
      case True
      have s: "(\<exists>n. y = Progress n ?tot) \<or> (\<exists>s m'. y = Solution_found s m') \<or> y = No_solution"
        if "y \<in> set ?loop" for y
        using l that by (intro search_loop_messages) simp_all
      from x l True have "x \<in> set w \<or> x = Trying ?tot \<or> x \<in> set ?loop" by auto
      with w s show ?thesis by blast
    qed
  qed
qed

text \<open>
  C5: whatever the file system holds, the program never prints "Matrix is empty",
  "Matrix rows are empty" or a column-sum error: the loader only returns non-empty
  rectangular matrices with non-empty rows, so the "cannot solve" guards of lines
  84--90 and the exception handler of lines 69--71 are dead code.
\<close>

theorem solve_matrix_problem_safe:
  "Matrix_empty \<notin> set (solve_matrix_problem fs fn)
   \<and> Matrix_rows_empty \<notin> set (solve_matrix_problem fs fn)
   \<and> Err_column_sum_check \<notin> set (solve_matrix_problem fs fn)"
proof -
  have "x \<notin> set (solve_matrix_problem fs fn)"
    if "x \<in> {Matrix_empty, Matrix_rows_empty, Err_column_sum_check}" for x
  proof
    assume "x \<in> set (solve_matrix_problem fs fn)"
    from solve_matrix_problem_messages [OF this] that show False by auto
  qed
  then show ?thesis by blast
qed



text \<open>
  C2: the solution the program prints is the least one. When a file loads into a
  matrix of int64 entries without column overflow, whose \<open>C ^ R\<close> can be printed, and
  the program prints a solution, the specification's search
  finds the same one: it has one shift in \<open>[0, C)\<close> per row, its shifted matrix
  (the one printed) has every column summing to 100, and no lexicographically smaller
  assignment of shifts does.
\<close>

theorem solve_matrix_problem_solution_least:
  assumes "read_matrix fs fn = Inr (w, Some m)" and "no_column_overflow m"
    and "py_str_digits_ok (int (length (hd m) ^ length m))"
    and "Solution_found s m' \<in> set (solve_matrix_problem fs fn)"
  shows "search_spec m 100 = Found s m'
         \<and> m' = shift_matrix m s \<and> length s = length m \<and> set s \<subseteq> {0..<int (length (hd m))}
         \<and> columns_sum_to m' 100
         \<and> (\<forall>s'. length s' = length m \<and> set s' \<subseteq> {0..<int (length (hd m))} \<and> s' < s
                \<longrightarrow> \<not> columns_sum_to (shift_matrix m s') 100)"
proof -
  let ?P = "\<lambda>s. columns_sum_to (shift_matrix m s) 100"
  let ?cs = "candidates (length m) (length (hd m))"
  let ?tot = "length (hd m) ^ length m"
  have ne: "m \<noteq> []" "hd m \<noteq> []"
    and solve: "solve_matrix_problem fs fn =
                  w @ Trying ?tot # progress_trace 0 (checked_count m 100) ?tot @
                  (case find ?P ?cs of None \<Rightarrow> [No_solution] | Some s \<Rightarrow> [Solution_found s (shift_matrix m s)])"
    using solve_matrix_problem_trace [OF assms(1-3)] by simp_all
  have "Solution_found s m' \<notin> set w"
    using read_matrix_loader_messages [OF assms(1), of "Solution_found s m'"] by auto
  moreover have "Solution_found s m' \<notin> set (progress_trace 0 (checked_count m 100) ?tot)"
    using progress_trace_set by blast
  ultimately have "find ?P ?cs = Some s \<and> m' = shift_matrix m s"
    using assms(4) solve by (auto split: option.splits)
  then have f: "search_spec m 100 = Found s m'" using ne by (simp add: search_spec_def)
  show ?thesis using f search_spec_found_least [OF f] by blast
qed

lemma solve_matrix_problem_solution_least_witness:
  "read_matrix [''matrix.txt'' \<mapsto> Regular_file (text_file [''60,40'', ''60,40''])] ''matrix.txt'' = Inr ([], Some [[60, 40], [60, 40]])
   \<and> no_column_overflow [[60, 40], [60, 40]]
   \<and> py_str_digits_ok (int (length (hd [[60, 40], [60, 40 :: int]]) ^ length [[60, 40], [60, 40 :: int]]))
   \<and> solve_matrix_problem [''matrix.txt'' \<mapsto> Regular_file (text_file [''60,40'', ''60,40''])] ''matrix.txt''
       = [Trying 4, Solution_found [0, 1] [[60, 40], [40, 60]]]
   \<and> \<not> columns_sum_to (shift_matrix [[60, 40], [60, 40]] [0, 0]) 100"
proof -
  have r: "read_matrix [''matrix.txt'' \<mapsto> Regular_file (text_file [''60,40'', ''60,40''])] ''matrix.txt''
             = Inr ([], Some [[60, 40], [60, 40]])" by code_simp
  have s: "no_column_overflow [[60, 40], [60, 40]]" by code_simp
  have d: "py_str_digits_ok (int (length (hd [[60, 40], [60, 40 :: int]]) ^ length [[60, 40], [60, 40 :: int]]))"
    by (simp add: py_str_digits_ok_int64)
  have o: "solve_matrix_problem [''matrix.txt'' \<mapsto> Regular_file (text_file [''60,40'', ''60,40''])] ''matrix.txt''
             = [Trying 4, Solution_found [0, 1] [[60, 40], [40, 60]]]" by code_simp
  have l: "length [0, 0 :: int] = length [[60, 40], [60, 40 :: int]]
           \<and> set [0, 0 :: int] \<subseteq> {0..<int (length (hd [[60, 40], [60, 40 :: int]]))}
           \<and> [0, 0] < [0, 1 :: int]"
    by simp
  have "Solution_found [0, 1] [[60, 40], [40, 60]]
          \<in> set (solve_matrix_problem [''matrix.txt'' \<mapsto> Regular_file (text_file [''60,40'', ''60,40''])] ''matrix.txt'')"
    using o by simp
  with solve_matrix_problem_solution_least [OF r s d] r s d o l show ?thesis by blast
qed

text \<open>
  C4: exhaustion. When a file loads into a matrix of int64 entries without column
  overflow, whose \<open>C ^ R\<close> can be printed, the program prints "no solution" exactly
  when no assignment of shifts in \<open>[0, C)\<close>, one per row, makes every column sum to
  100; it has then examined all \<open>C ^ R\<close> candidates, printing a progress line for
  every 5000th of them.
\<close>

theorem solve_matrix_problem_no_solution:
  assumes "read_matrix fs fn = Inr (w, Some m)" and "no_column_overflow m"
    and "py_str_digits_ok (int (length (hd m) ^ length m))"
  shows "(No_solution \<in> set (solve_matrix_problem fs fn) \<longleftrightarrow>
            (\<forall>s. length s = length m \<and> set s \<subseteq> {0..<int (length (hd m))}
                 \<longrightarrow> \<not> columns_sum_to (shift_matrix m s) 100))
         \<and> (No_solution \<in> set (solve_matrix_problem fs fn) \<longrightarrow>
            solve_matrix_problem fs fn =
              w @ Trying (length (hd m) ^ length m) #
              progress_trace 0 (length (hd m) ^ length m) (length (hd m) ^ length m) @ [No_solution])"
proof -
  let ?tot = "length (hd m) ^ length m"
  let ?P = "\<lambda>s. columns_sum_to (shift_matrix m s) 100"
  have ne: "m \<noteq> []" "hd m \<noteq> []" and r: "search_spec m 100 \<noteq> Cannot_solve"
    and solve: "solve_matrix_problem fs fn =
           w @ Trying ?tot # progress_trace 0 (checked_count m 100) ?tot @
           (case search_spec m 100 of Found s m' \<Rightarrow> [Solution_found s m'] | _ \<Rightarrow> [No_solution])"
    using solve_matrix_problem_trace [OF assms] by (simp_all add: search_spec_def split: option.split)
  have nw: "No_solution \<notin> set w"
    using read_matrix_loader_messages [OF assms(1), of No_solution] by auto
  have np: "No_solution \<notin> set (progress_trace 0 (checked_count m 100) ?tot)"
    using progress_trace_set by blast
  have iff: "No_solution \<in> set (solve_matrix_problem fs fn) \<longleftrightarrow> search_spec m 100 = Exhausted"
    using solve nw np r by (cases "search_spec m 100") auto
  have ex: "search_spec m 100 = Exhausted \<longleftrightarrow>
      (\<forall>s. length s = length m \<and> set s \<subseteq> {0..<int (length (hd m))} \<longrightarrow> \<not> ?P s)"
    using search_spec_exhausted [of m 100] ne by simp
  show ?thesis
  proof (intro conjI)
    show "No_solution \<in> set (solve_matrix_problem fs fn) \<longleftrightarrow>
            (\<forall>s. length s = length m \<and> set s \<subseteq> {0..<int (length (hd m))} \<longrightarrow> \<not> ?P s)"
      using iff ex by simp
    show "No_solution \<in> set (solve_matrix_problem fs fn) \<longrightarrow>
            solve_matrix_problem fs fn = w @ Trying ?tot # progress_trace 0 ?tot ?tot @ [No_solution]"
      using iff solve checked_count_exhausted [of m 100] by auto
  qed
qed

lemma solve_matrix_problem_no_solution_witness:
  "read_matrix [''matrix.txt'' \<mapsto> Regular_file (text_file [''1,1'', ''1,1''])] ''matrix.txt'' = Inr ([], Some [[1, 1], [1, 1]])
   \<and> no_column_overflow [[1, 1], [1, 1]]
   \<and> py_str_digits_ok (int (length (hd [[1, 1], [1, 1 :: int]]) ^ length [[1, 1], [1, 1 :: int]]))
   \<and> solve_matrix_problem [''matrix.txt'' \<mapsto> Regular_file (text_file [''1,1'', ''1,1''])] ''matrix.txt''
       = [Trying 4, No_solution]
   \<and> \<not> columns_sum_to (shift_matrix [[1, 1], [1, 1]] [1, 0]) 100"
proof -
  have r: "read_matrix [''matrix.txt'' \<mapsto> Regular_file (text_file [''1,1'', ''1,1''])] ''matrix.txt''
             = Inr ([], Some [[1, 1], [1, 1]])" by code_simp
  have s: "no_column_overflow [[1, 1], [1, 1]]" by code_simp
  have d: "py_str_digits_ok (int (length (hd [[1, 1], [1, 1 :: int]]) ^ length [[1, 1], [1, 1 :: int]]))"
    by (simp add: py_str_digits_ok_int64)
  have o: "solve_matrix_problem [''matrix.txt'' \<mapsto> Regular_file (text_file [''1,1'', ''1,1''])] ''matrix.txt''
             = [Trying 4, No_solution]" by code_simp
  have l: "length [1, 0 :: int] = length [[1, 1], [1, 1 :: int]]
           \<and> set [1, 0 :: int] \<subseteq> {0..<int (length (hd [[1, 1], [1, 1 :: int]]))}"
    by simp
  show ?thesis using solve_matrix_problem_no_solution [OF r s d] r s d o l by simp
qed

subsection \<open>A wrong solution through int64 overflow\<close>

text \<open>
  Outside \<open>int64_safe\<close> the program can print a wrong solution. For the file
  holding the lines \<^verbatim>\<open>9223372036854775807\<close>, \<^verbatim>\<open>9223372036854775807\<close> and
  \<^verbatim>\<open>102\<close>, NumPy's int64 column sum wraps from \<open>2^64 + 100\<close> to 100, and the
  program prints the unshifted matrix as a solution although its column does not sum
  to 100.
\<close>

theorem solve_matrix_problem_overflow:
  "solve_matrix_problem [''matrix.txt'' \<mapsto> Regular_file (text_file [''9223372036854775807'', ''9223372036854775807'', ''102''])] ''matrix.txt''
     = [Trying 1, Solution_found [0, 0, 0] [[9223372036854775807], [9223372036854775807], [102]]]
   \<and> \<not> columns_sum_to [[9223372036854775807], [9223372036854775807], [102]] 100"
proof -
  let ?fs = "[''matrix.txt'' \<mapsto> Regular_file (text_file [''9223372036854775807'', ''9223372036854775807'', ''102''])]"
  let ?m = "[[9223372036854775807], [9223372036854775807], [102 :: int]]"
  have r: "read_matrix ?fs ''matrix.txt'' = Inr ([], Some ?m)"
    by (simp add: read_matrix_def py_open_readlines_def py_readlines_def text_file_def parse_row_def py_simps rectangular_def)
  have c: "candidates (length ?m) (length (hd ?m)) = [[0, 0, 0]]" by (simp add: product_repeat_def itertools_product_def py_range_def numeral_eq_Suc)
  have s: "shift_matrix ?m [0, 0, 0] = ?m" by (simp add: shift_matrix_def shift_row_rotate upt_rec)
  have k: "check_column_sums ?m 100 = (True, [])" using check_column_sums_overflow by simp
  have "column_sum ?m 0 = 2 ^ 64 + 100" by (simp add: column_sum_def)
  then have n: "\<not> columns_sum_to ?m 100" by (simp add: columns_sum_to_def)
  have "solve_matrix_problem ?fs ''matrix.txt'' =
          Trying (length (hd ?m) ^ length ?m) #
          search_loop ?m (length (hd ?m) ^ length ?m) 0 (candidates (length ?m) (length (hd ?m)))"
    using solve_matrix_problem_printable [OF r] by (simp add: py_str_digits_ok_int64)
  then show ?thesis unfolding c using s k n by (simp add: progress_message_def)
qed


subsection \<open>The shape of a printed solution\<close>

lemma check_column_sums_errors:
  "x \<in> set (snd (check_column_sums m t)) \<Longrightarrow> x = Err_column_sum_check"
  by (auto simp: check_column_sums_def split: option.splits if_splits)

lemma search_loop_solution:
  "Solution_found s m' \<in> set (search_loop m tot i cs) \<Longrightarrow> s \<in> set cs \<and> m' = shift_matrix m s"
proof (induction cs arbitrary: i)
  case (Cons c cs)
  obtain b errs where chk: "check_column_sums (shift_matrix m c) 100 = (b, errs)" by fastforce
  have "Solution_found s m' \<notin> set errs"
    using check_column_sums_errors [of _ "shift_matrix m c" 100] chk by auto
  with Cons chk show ?case by (auto simp: progress_message_def split: if_splits)
qed simp

text \<open>
  C3: whatever the entries (no int64 bound is assumed), a solution the program prints
  for a loaded \<open>R \<times> C\<close> matrix has one shift in \<open>[0, C)\<close> per row, and the matrix
  printed with it is \<open>R \<times> C\<close> and rectangular, each of its rows a permutation of
  the corresponding input row.
\<close>

theorem solve_matrix_problem_solution_shape:
  assumes "read_matrix fs fn = Inr (w, Some m)"
    and "Solution_found s m' \<in> set (solve_matrix_problem fs fn)"
  shows "length s = length m \<and> set s \<subseteq> {0..<int (length (hd m))}
         \<and> length m' = length m \<and> rectangular m' \<and> length (hd m') = length (hd m)
         \<and> (\<forall>i < length m. mset (m' ! i) = mset (m ! i))"
proof -
  have ne: "m \<noteq> []" and r: "rectangular m"
    and solve: "solve_matrix_problem fs fn =
                  w @ (if \<not> py_str_digits_ok (int (length (hd m) ^ length m))
                   then [Uncaught ValueError_int_str_digits]
                   else Trying (length (hd m) ^ length m) #
                     search_loop m (length (hd m) ^ length m) 0 (candidates (length m) (length (hd m))))"
    using solve_matrix_problem_loaded [OF assms(1)] by simp_all
  have "Solution_found s m' \<notin> set w"
    using read_matrix_loader_messages [OF assms(1), of "Solution_found s m'"] by auto
  with assms(2) solve
  have "s \<in> set (candidates (length m) (length (hd m))) \<and> m' = shift_matrix m s"
    by (auto dest: search_loop_solution split: if_splits)
  then have c: "length s = length m \<and> set s \<subseteq> {0..<int (length (hd m))}" and m': "m' = shift_matrix m s"
    by (simp_all add: candidates_set)
  have "\<forall>i < length m. mset (m' ! i) = mset (m ! i)"
    by (simp add: m' shift_matrix_nth shift_row_rotate)
  with c m' ne r show ?thesis
    by (simp add: shift_matrix_rectangular hd_shift_matrix)
qed


lemma solve_matrix_problem_solution_shape_witness:
  "read_matrix [''matrix.txt'' \<mapsto> Regular_file (text_file [''60,40'', ''60,40''])] ''matrix.txt'' = Inr ([], Some [[60, 40], [60, 40]])
   \<and> Solution_found [0, 1] [[60, 40], [40, 60]]
       \<in> set (solve_matrix_problem [''matrix.txt'' \<mapsto> Regular_file (text_file [''60,40'', ''60,40''])] ''matrix.txt'')
   \<and> rectangular [[60, 40], [40, 60 :: int]]"
proof -
  have r: "read_matrix [''matrix.txt'' \<mapsto> Regular_file (text_file [''60,40'', ''60,40''])] ''matrix.txt''
             = Inr ([], Some [[60, 40], [60, 40]])" by code_simp
  have o: "Solution_found [0, 1] [[60, 40], [40, 60]]
             \<in> set (solve_matrix_problem [''matrix.txt'' \<mapsto> Regular_file (text_file [''60,40'', ''60,40''])] ''matrix.txt'')"
    by code_simp
  show ?thesis using solve_matrix_problem_solution_shape [OF r o] r o by simp
qed

subsection \<open>Progress lines\<close>

lemma progress_trace_0_Suc:
  "progress_trace 0 (Suc k) tot = progress_trace 0 k tot @ progress_message k tot"
  by (simp add: progress_trace_def)

lemma length_progress_trace: "length (progress_trace 0 k tot) = k div 5000"
proof (induction k)
  case (Suc k)
  then show ?case by (simp add: progress_trace_0_Suc progress_message_def div_Suc)
qed (simp add: progress_trace_def)

text \<open>
  C8: the progress lines of a run that examines \<open>k\<close> candidates: one line per 5000
  candidates, the \<open>j\<close>-th (from 0) reporting \<open>5000 (j + 1)\<close> of the total; a
  run that stops at the candidate with index \<open>k - 1\<close> prints \<open>k div 5000\<close> of
  them, the last one when its own count is a multiple of 5000.
\<close>

theorem progress_trace_exact:
  "progress_trace 0 k tot = map (\<lambda>j. Progress (5000 * Suc j) tot) [0..<k div 5000]"
proof (induction k)
  case 0
  then show ?case by (simp add: progress_trace_def)
next
  case (Suc k)
  show ?case
  proof (cases "Suc k mod 5000 = 0")
    case True
    then have d: "Suc k div 5000 = Suc (k div 5000)" by (simp add: div_Suc)
    have "Suc k = 5000 * (Suc k div 5000)" using True div_mult_mod_eq [of "Suc k" 5000] by simp
    with d have "5000 * Suc (k div 5000) = Suc k" by simp
    with True d Suc.IH show ?thesis by (simp add: progress_trace_0_Suc progress_message_def)
  next
    case False
    then have "Suc k div 5000 = k div 5000" by (simp add: div_Suc)
    with False Suc.IH show ?thesis by (simp add: progress_trace_0_Suc progress_message_def)
  qed
qed

end
