(* ===== verification/Loop_Machine.thy ===== *)
theory Loop_Machine
  imports Search
begin

text \<open>
  The search loop of \<^verbatim>\<open>solve_matrix_problem\<close> (\<^verbatim>\<open>src/main.py\<close>, lines 100--118) as
  a state machine. The state is what the loop keeps between iterations: the index of
  \<^verbatim>\<open>enumerate\<close>, the candidates the \<^verbatim>\<open>product\<close> iterator has still to yield, the
  output printed so far, and whether the function has returned. One step is one
  iteration: a candidate that fails the check, a candidate that passes it (print and
  return), or the end of the iterator ("no solution"). The invariant of the reachable
  states is proved by rule induction: the pending candidates are those the iterator
  has not yielded, the index counts the others, and while the loop runs every
  candidate it passed over failed the check.
\<close>

record loop_state =
  idx :: nat
  pending :: "shifts list"
  printed :: "message list"
  stopped :: bool

definition loop_init :: "shifts list \<Rightarrow> loop_state" where
  "loop_init cs = \<lparr>idx = 0, pending = cs, printed = [], stopped = False\<rparr>"

inductive loop_step :: "matrix \<Rightarrow> nat \<Rightarrow> loop_state \<Rightarrow> loop_state \<Rightarrow> bool"
  for m :: matrix and tot :: nat where
  candidate_fails:
    "\<lbrakk>\<not> stopped st; pending st = c # rest; check_column_sums (shift_matrix m c) 100 = (False, errs)\<rbrakk>
     \<Longrightarrow> loop_step m tot st
           (st\<lparr>idx := Suc (idx st), pending := rest,
               printed := printed st @ progress_message (idx st) tot @ errs\<rparr>)"
| candidate_found:
    "\<lbrakk>\<not> stopped st; pending st = c # rest; check_column_sums (shift_matrix m c) 100 = (True, errs)\<rbrakk>
     \<Longrightarrow> loop_step m tot st
           (st\<lparr>idx := Suc (idx st), pending := rest,
               printed := printed st @ progress_message (idx st) tot @ errs
                            @ [Solution_found c (shift_matrix m c)],
               stopped := True\<rparr>)"
| candidates_exhausted:
    "\<lbrakk>\<not> stopped st; pending st = []\<rbrakk>
     \<Longrightarrow> loop_step m tot st (st\<lparr>printed := printed st @ [No_solution], stopped := True\<rparr>)"

abbreviation loop_reachable :: "matrix \<Rightarrow> nat \<Rightarrow> shifts list \<Rightarrow> loop_state \<Rightarrow> bool" where
  "loop_reachable m tot cs st \<equiv> (loop_step m tot)\<^sup>*\<^sup>* (loop_init cs) st"

subsection \<open>One step\<close>

inductive_cases loop_stepE: "loop_step m tot st st'"

lemma loop_step_not_stopped: "loop_step m tot st st' \<Longrightarrow> \<not> stopped st"
  by (induction rule: loop_step.induct) simp_all

lemma loop_step_deterministic: "loop_step m tot st st1 \<Longrightarrow> loop_step m tot st st2 \<Longrightarrow> st1 = st2"
  by (erule loop_stepE; erule loop_stepE) simp_all

lemma drop_eq_Cons:
  "drop i cs = c # rest \<Longrightarrow> i < length cs \<and> cs ! i = c \<and> rest = drop (Suc i) cs"
proof -
  assume d: "drop i cs = c # rest"
  then have i: "i < length cs" by (metis drop_all list.distinct(1) not_le)
  with d Cons_nth_drop_Suc [OF i] show ?thesis by simp
qed

lemma loop_step_exists:
  "\<not> stopped st \<Longrightarrow> \<exists>st'. loop_step m tot st st'"
proof (cases "pending st")
  case Nil
  assume "\<not> stopped st"
  with Nil show ?thesis by (blast intro: loop_step.candidates_exhausted)
next
  case (Cons c rest)
  assume ns: "\<not> stopped st"
  obtain b errs where chk: "check_column_sums (shift_matrix m c) 100 = (b, errs)" by fastforce
  show ?thesis
  proof (cases b)
    case True
    with chk have "check_column_sums (shift_matrix m c) 100 = (True, errs)" by simp
    with ns Cons show ?thesis by (blast intro: loop_step.candidate_found)
  next
    case False
    with chk have "check_column_sums (shift_matrix m c) 100 = (False, errs)" by simp
    with ns Cons show ?thesis by (blast intro: loop_step.candidate_fails)
  qed
qed

subsection \<open>Reachable states\<close>

text \<open>
  C7: invariant of the reachable states. The pending candidates are what the
  iterator has not yielded yet, the index never passes their number, and while the
  loop runs every candidate already examined failed the check.
\<close>

theorem loop_machine_invariant:
  assumes "loop_reachable m tot cs st"
  shows "pending st = drop (idx st) cs \<and> idx st \<le> length cs
         \<and> (\<not> stopped st \<longrightarrow>
              (\<forall>c \<in> set (take (idx st) cs). \<not> fst (check_column_sums (shift_matrix m c) 100)))"
  using assms
proof (induction rule: rtranclp_induct)
  case base
  then show ?case by (simp add: loop_init_def)
next
  case (step st st')
  from step.hyps(2) show ?case
  proof (cases rule: loop_step.cases)
    case (candidate_fails c rest errs)
    with step.IH have "drop (idx st) cs = c # rest" by simp
    then have d: "idx st < length cs \<and> cs ! idx st = c \<and> rest = drop (Suc (idx st)) cs"
      by (rule drop_eq_Cons)
    then have "take (Suc (idx st)) cs = take (idx st) cs @ [c]" by (simp add: take_Suc_conv_app_nth)
    with candidate_fails step.IH d show ?thesis by auto
  next
    case (candidate_found c rest errs)
    with step.IH have "drop (idx st) cs = c # rest" by simp
    then have "idx st < length cs \<and> rest = drop (Suc (idx st)) cs"
      by (simp add: drop_eq_Cons)
    with candidate_found show ?thesis by simp
  next
    case candidates_exhausted
    with step.IH show ?thesis by simp
  qed
qed

lemma loop_machine_invariant_witness:
  "loop_reachable [[1, 1], [1, 1]] 4 [[0, 0], [0, 1]]
     \<lparr>idx = 1, pending = [[0, 1]], printed = [], stopped = False\<rparr>
   \<and> \<not> fst (check_column_sums (shift_matrix [[1, 1], [1, 1]] [0, 0]) 100)"
proof -
  have chk: "check_column_sums (shift_matrix [[1, 1], [1, 1]] [0, 0]) 100 = (False, [])" by code_simp
  have "loop_step [[1, 1], [1, 1]] 4 (loop_init [[0, 0], [0, 1]])
          \<lparr>idx = 1, pending = [[0, 1]], printed = [], stopped = False\<rparr>"
    using loop_step.candidate_fails [of "loop_init [[0, 0], [0, 1]]" "[0, 0]" "[[0, 1]]" "[[1, 1], [1, 1]]" "[]" 4] chk
    by (simp add: loop_init_def progress_message_def)
  then have r: "loop_reachable [[1, 1], [1, 1]] 4 [[0, 0], [0, 1]]
                  \<lparr>idx = 1, pending = [[0, 1]], printed = [], stopped = False\<rparr>" by simp
  show ?thesis using loop_machine_invariant [OF r] r by simp
qed

end
