(* ===== verification/Odometer.thy ===== *)
theory Odometer
  imports Enumeration
begin

text \<open>
  The mixed-radix odometer of the specification's design notes (section 9) as an
  abstract enumerator of shift assignments, and its equivalence with the program's
  enumeration \<^verbatim>\<open>product(range(C), repeat=R)\<close> (\<^verbatim>\<open>src/main.py\<close>, line 99).
  An assignment is a counter of \<open>R\<close> digits in base \<open>C\<close>, most significant
  first; \<open>to_digits c r i\<close> writes \<open>i\<close> that way and \<open>odometer_next\<close> adds one
  to the counter, the rightmost digit first, carrying to the left (on the reversed
  list, \<open>incr_rev\<close>). Nothing here is code of the program: the theory shows
  that the index \<open>i\<close> of \<^verbatim>\<open>enumerate\<close> in the search loop is the
  assignment's value as a base-\<open>C\<close> number, and that an odometer started at all
  zeros and stepped \<open>C^R - 1\<close> times visits the program's candidates in the
  program's order.
\<close>

fun to_digits :: "nat \<Rightarrow> nat \<Rightarrow> nat \<Rightarrow> int list" where
  "to_digits c 0 i = []"
| "to_digits c (Suc r) i = to_digits c r (i div c) @ [int (i mod c)]"

fun incr_rev :: "int \<Rightarrow> int list \<Rightarrow> int list" where
  "incr_rev c [] = []"
| "incr_rev c (d # ds) = (if d + 1 < c then (d + 1) # ds else 0 # incr_rev c ds)"

definition odometer_next :: "int \<Rightarrow> int list \<Rightarrow> int list" where
  "odometer_next c ds = rev (incr_rev c (rev ds))"

definition odometer :: "nat \<Rightarrow> nat \<Rightarrow> int list list" where
  "odometer c r = map (\<lambda>i. (odometer_next (int c) ^^ i) (replicate r 0)) [0..<c ^ r]"

subsection \<open>The program's enumeration in base \<open>C\<close>\<close>

lemma product_repeat_Suc:
  "product_repeat xs (Suc r) = [x @ [y]. x \<leftarrow> product_repeat xs r, y \<leftarrow> xs]"
  by (simp add: product_repeat_def itertools_product_def replicate_append_same [symmetric]
      del: replicate_Suc)

lemma map_upt_mult:
  "map f [0..<a * c] = concat (map (\<lambda>q. map (\<lambda>m. f (q * c + m)) [0..<c]) [0..<a])"
proof (induction a)
  case 0
  then show ?case by simp
next
  case (Suc a)
  have "[0..<a * c + c] = [0..<a * c] @ [a * c..<a * c + c]"
    by (rule upt_add_eq_append) simp
  then have "[0..<Suc a * c] = [0..<a * c] @ map (\<lambda>m. a * c + m) [0..<c]"
    by (simp add: map_add_upt add.commute)
  with Suc show ?case by simp
qed

lemma to_digits_length [simp]: "length (to_digits c r i) = r"
  by (induction r arbitrary: i) simp_all

lemma product_repeat_to_digits:
  "product_repeat (py_range c) r = map (to_digits c r) [0..<c ^ r]"
proof (induction r)
  case 0
  then show ?case by (simp add: product_repeat_def itertools_product_def)
next
  case (Suc r)
  show ?case
  proof (cases "c = 0")
    case True
    then show ?thesis by (simp add: product_repeat_Suc py_range_def)
  next
    case False
    have "map (to_digits c (Suc r)) [0..<c ^ Suc r]
            = concat (map (\<lambda>q. map (\<lambda>m. to_digits c (Suc r) (q * c + m)) [0..<c]) [0..<c ^ r])"
      by (simp only: power_Suc mult.commute [of c] map_upt_mult)
    also have "\<dots> = concat (map (\<lambda>q. map (\<lambda>m. to_digits c r q @ [int m]) [0..<c]) [0..<c ^ r])"
      using False by (intro arg_cong [where f = concat] map_cong refl) simp
    finally have e: "map (to_digits c (Suc r)) [0..<c ^ Suc r]
        = concat (map (\<lambda>q. map (\<lambda>m. to_digits c r q @ [int m]) [0..<c]) [0..<c ^ r])" .
    show ?thesis
      unfolding product_repeat_Suc Suc.IH e by (simp add: py_range_def map_concat comp_def)
  qed
qed

lemma to_digits_zero [simp]: "to_digits c r 0 = replicate r 0"
  by (induction r) (simp_all add: replicate_append_same)

lemma Suc_no_carry:
  "Suc (i mod c) \<noteq> c \<Longrightarrow> Suc i div c = i div c \<and> Suc i mod c = Suc (i mod c)"
  by (simp add: div_Suc mod_Suc)

lemma Suc_carry:
  "Suc (i mod c) = c \<Longrightarrow> Suc i div c = Suc (i div c) \<and> Suc i mod c = 0"
  by (simp add: div_Suc mod_Suc)

lemma incr_rev_to_digits:
  "Suc i < c ^ r \<Longrightarrow> incr_rev (int c) (rev (to_digits c r i)) = rev (to_digits c r (Suc i))"
proof (induction r arbitrary: i)
  case 0
  then show ?case by simp
next
  case (Suc r)
  show ?case
  proof (cases "Suc (i mod c) = c")
    case False
    have "i mod c < c" using Suc.prems by (cases "c = 0") simp_all
    with False have "int (i mod c) + 1 < int c" by simp
    with False show ?thesis by (simp add: Suc_no_carry)
  next
    case True
    then have "Suc i = c * Suc (i div c)"
      using div_mult_mod_eq [of "Suc i" c] Suc_carry [of i c] by (simp add: mult.commute)
    with Suc.prems have "c * Suc (i div c) < c * c ^ r" by (simp only: power_Suc)
    then have "Suc (i div c) < c ^ r" by (simp only: mult_less_cancel1)
    with True show ?thesis by (simp add: Suc_carry Suc.IH)
  qed
qed

lemma odometer_next_to_digits:
  "Suc i < c ^ r \<Longrightarrow> odometer_next (int c) (to_digits c r i) = to_digits c r (Suc i)"
  by (simp add: odometer_next_def incr_rev_to_digits)

lemma odometer_iterate:
  "i < c ^ r \<Longrightarrow> (odometer_next (int c) ^^ i) (replicate r 0) = to_digits c r i"
  by (induction i) (simp_all add: odometer_next_to_digits)

subsection \<open>The odometer visits the program's candidates\<close>

text \<open>
  C12: the \<open>i\<close>-th assignment the program enumerates (0-based, the \<open>i\<close> of
  \<^verbatim>\<open>enumerate\<close>) is \<open>i\<close> written in base \<open>C\<close> with \<open>R\<close> digits, the last
  row's shift being the least significant digit.
\<close>

theorem product_repeat_nth:
  assumes "i < c ^ r"
  shows "product_repeat (py_range c) r ! i = to_digits c r i"
  using assms by (simp add: product_repeat_to_digits)

lemma product_repeat_nth_witness:
  "5 < (3::nat) ^ 3 \<and> product_repeat (py_range 3) 3 ! 5 = [0, 1, 2]"
proof -
  have "to_digits 3 3 5 = [0, 1, 2]" by code_simp
  then show ?thesis using product_repeat_nth [of 5 3 3] by simp
qed

text \<open>
  C11: the odometer of the design notes, started at all zeros and stepped once per
  candidate, produces exactly the list of assignments \<^verbatim>\<open>product(range(C),
  repeat=R)\<close> produces, in the same order, for every \<open>C\<close> and \<open>R\<close>.
\<close>

theorem odometer_product_repeat: "odometer c r = product_repeat (py_range c) r"
  by (simp add: odometer_def product_repeat_to_digits odometer_iterate)

end
