(* ===== verification/Console.thy ===== *)
theory Console
  imports Search
begin

text \<open>
  Console output: the text the \<^verbatim>\<open>print\<close> calls of \<^verbatim>\<open>src/main.py\<close> write for each
  message of the model. \<open>render_loader_message\<close> holds the prints of
  \<^verbatim>\<open>read_matrix\<close> (lines 13--42), \<open>render_check_error\<close> the one of
  \<^verbatim>\<open>check_column_sums\<close> (line 70), whose text is NumPy's exception message and so a
  parameter, and \<open>render_search_message\<close> those of \<^verbatim>\<open>solve_matrix_problem\<close>
  (lines 80--118). \<^verbatim>\<open>str\<close> of a list of integers and of a tuple of integers are
  \<open>py_repr_list\<close> and \<open>py_repr_tuple\<close> (a one-element tuple prints with a trailing
  comma). \<^verbatim>\<open>print\<close> ends every line with \<^verbatim>\<open>\n\<close>, and a \<^verbatim>\<open>\n\<close> at the start of
  a printed string is an empty line before it. The traceback of an uncaught exception
  goes to standard error and adds nothing here. \<^verbatim>\<open>str\<close> of an integer is
  \<open>py_str_int\<close> without CPython's 4300-digit limit: every integer the program prints
  is an entry of a loaded matrix (\<open>read_matrix_entries_printable\<close>), or \<open>C ^ R\<close>
  and a count below it, which \<open>solve_matrix_problem\<close> prints only after checking
  the limit. The lemmas count the lines of a run and show that a printed row, without
  its brackets, is a line the loader reads back as the same row.
\<close>

fun py_str_join :: "string \<Rightarrow> string list \<Rightarrow> string" where
  "py_str_join sep [] = []"
| "py_str_join sep [w] = w"
| "py_str_join sep (w # v # ws) = w @ sep @ py_str_join sep (v # ws)"

definition py_repr_list :: "int list \<Rightarrow> string" where
  "py_repr_list xs = ''['' @ py_str_join '', '' (map py_str_int xs) @ '']''"

definition py_repr_tuple :: "int list \<Rightarrow> string" where
  "py_repr_tuple xs =
     (case xs of
        [x] \<Rightarrow> ''('' @ py_str_int x @ '',)''
      | _ \<Rightarrow> ''('' @ py_str_join '', '' (map py_str_int xs) @ '')'')"

definition py_str_nat :: "nat \<Rightarrow> string" where
  "py_str_nat n = py_str_int (int n)"

fun render_loader_message :: "message \<Rightarrow> string list" where
  "render_loader_message (Err_file_not_found filename) = [''Error: File '' @ [CHR 0x27] @ filename @ [CHR 0x27] @ '' not found.'']"
| "render_loader_message (Err_file_empty filename) = [''Error: File '' @ [CHR 0x27] @ filename @ [CHR 0x27] @ '' is empty.'']"
| "render_loader_message (Warn_skip_line line) = [''Warning: Could not parse line: '' @ line @ ''. Skipping.'']"
| "render_loader_message Err_no_data = [''Error: No valid matrix data found in file.'']"
| "render_loader_message Err_inconsistent_columns = [''Error: Matrix rows have inconsistent number of columns.'']"
| "render_loader_message _ = []"

definition render_check_error :: "string \<Rightarrow> string list" where
  "render_check_error e = [''Error during column sum check: '' @ e]"

fun render_search_message :: "message \<Rightarrow> string list" where
  "render_search_message Exit_read_error = [''Exiting due to matrix reading error.'']"
| "render_search_message Matrix_empty = [''Matrix is empty. Cannot solve.'']"
| "render_search_message Matrix_rows_empty = [''Matrix rows are empty. Cannot solve.'']"
| "render_search_message (Trying total_combinations) =
     [''Trying '' @ py_str_nat total_combinations @ '' possible shift combinations...'']"
| "render_search_message (Progress i total_combinations) =
     [''Checked '' @ py_str_nat i @ ''/'' @ py_str_nat total_combinations @ '' combinations...'']"
| "render_search_message (Solution_found shift_combination shifted_matrix_list) =
     [[], ''Solution found!'',
      ''Shifts applied (0-indexed, right shifts for each row): '' @ py_repr_tuple shift_combination,
      ''Resulting matrix:''] @
     map py_repr_list shifted_matrix_list"
| "render_search_message No_solution = [[], ''No solution found after checking all combinations.'']"
| "render_search_message _ = []"

definition render_message :: "string \<Rightarrow> message \<Rightarrow> string list" where
  "render_message e msg =
     (if msg = Err_column_sum_check then render_check_error e
      else render_loader_message msg @ render_search_message msg)"

definition stdout_text :: "string \<Rightarrow> message list \<Rightarrow> string" where
  "stdout_text e msgs = text_file (concat (map (render_message e) msgs))"

subsection \<open>Printed rows can be read back\<close>

lemma py_str_join_comma_space:
  "py_str_join '', '' (w # ws) = py_join CHR '','' (w # map (Cons CHR '' '') ws)"
  by (induction ws arbitrary: w) (simp_all add: py_join_Cons_Cons)

lemma py_strip_Cons_space: "py_isspace c \<Longrightarrow> py_strip (c # s) = py_strip s"
  by (simp add: py_strip_def)

lemma py_int_Cons_space: "py_int (CHR '' '' # s) = py_int s"
  by (simp add: py_int_def py_strip_Cons_space py_isspace_def)

lemma py_repr_list_inner: "butlast (tl (py_repr_list xs)) = py_str_join '', '' (map py_str_int xs)"
  by (simp add: py_repr_list_def butlast_append)

text \<open>
  C31: a row of integers of at most 4300 digits (which every row of a loaded matrix
  is, and so every row of a printed solution), as \<^verbatim>\<open>print(r)\<close> writes it, without
  its brackets, is a line that the loader's \<^verbatim>\<open>int(val) for val in line.strip().split(',')\<close>
  reads back as the same row: the program's output can be fed back to it.
\<close>

theorem py_repr_list_parse_row:
  assumes "r \<noteq> []" and "\<forall>x \<in> set r. py_str_digits_ok x"
  shows "parse_row (butlast (tl (py_repr_list r))) = Some r"
proof -
  obtain x xs where r: "r = x # xs" using assms by (cases r) auto
  let ?ws = "py_str_int x # map (Cons CHR '' '' \<circ> py_str_int) xs"
  have line: "butlast (tl (py_repr_list r)) = py_join CHR '','' ?ws"
    by (simp add: r py_repr_list_inner py_str_join_comma_space)
  have ne: "\<forall>w \<in> set ?ws. w \<noteq> []" by auto
  have last: "\<not> py_isspace (last (last ?ws))"
    by (cases xs rule: rev_cases) (simp_all add: py_str_int_last_not_space)
  have strip: "py_strip (py_join CHR '','' ?ws) = py_join CHR '','' ?ws"
    using ne last
    by (intro py_strip_id) (simp_all add: py_join_hd py_join_last py_join_not_Nil py_str_int_hd_not_space)
  have split: "py_split CHR '','' (py_join CHR '','' ?ws) = ?ws"
    by (rule py_split_py_join) (auto simp: py_str_int_no_comma)
  have ints: "map py_int ?ws = map Some r"
    using assms(2) by (simp add: r py_int_py_str_int py_int_Cons_space)
  show ?thesis by (simp only: line parse_row_def strip split ints those_map_Some)
qed

lemma py_repr_list_parse_row_witness:
  "[-5, 105 :: int] \<noteq> [] \<and> py_str_digits_ok (-5) \<and> py_str_digits_ok 105
   \<and> py_repr_list [-5, 105] = ''[-5, 105]''
   \<and> parse_row ''-5, 105'' = Some [-5, 105]"
proof -
  have p: "py_repr_list [-5, 105] = ''[-5, 105]''" by code_simp
  have d: "\<forall>x \<in> set [-5, 105 :: int]. py_str_digits_ok x" by (simp add: py_str_digits_ok_int64)
  have "butlast (tl ''[-5, 105]'') = ''-5, 105''" by simp
  then show ?thesis using py_repr_list_parse_row [of "[-5, 105]"] p d by simp
qed

subsection \<open>How many lines a run prints\<close>

lemma render_progress_trace_lines:
  "length (concat (map (render_message e) (progress_trace 0 k tot))) = k div 5000"
proof -
  have "\<forall>x \<in> set (progress_trace 0 k tot). length (render_message e x) = 1"
    by (auto dest!: progress_trace_set simp: render_message_def)
  then show ?thesis by (simp add: length_concat_map_one length_progress_trace)
qed

text \<open>
  C32: the number of lines a run writes on a loaded matrix of int64 entries without
  column overflow, whose \<open>C ^ R\<close> can be printed: one per
  skipped line, the line with \<open>C^R\<close>, one progress line per 5000 candidates the
  search examines, and then four lines and the \<open>R\<close> rows of the solution, or an
  empty line and "no solution".
\<close>

theorem stdout_line_count:
  assumes "read_matrix fs fn = Inr (w, Some m)" and "no_column_overflow m"
    and "py_str_digits_ok (int (length (hd m) ^ length m))"
  shows "length (concat (map (render_message e) (solve_matrix_problem fs fn)))
           = length w + 1 + checked_count m 100 div 5000
             + (case search_spec m 100 of Found s m' \<Rightarrow> 4 + length m | _ \<Rightarrow> 2)"
proof -
  obtain lines where p: "parse_lines (drop (comment_skip lines) lines) = (w, m)"
    using assms(1) by (rule read_matrix_SomeE)
  have "\<forall>x \<in> set w. length (render_message e x) = 1"
    using parse_lines_warnings [of _ "drop (comment_skip lines) lines"] p
    by (force simp: render_message_def)
  then have w: "length (concat (map (render_message e) w)) = length w"
    by (rule length_concat_map_one)
  have ne: "m \<noteq> []" "hd m \<noteq> []"
    and solve: "solve_matrix_problem fs fn =
           w @ Trying (length (hd m) ^ length m) #
           progress_trace 0 (checked_count m 100) (length (hd m) ^ length m) @
           (case find (\<lambda>s. columns_sum_to (shift_matrix m s) 100) (candidates (length m) (length (hd m))) of
              None \<Rightarrow> [No_solution]
            | Some s \<Rightarrow> [Solution_found s (shift_matrix m s)])"
    using solve_matrix_problem_trace [OF assms] by simp_all
  show ?thesis
    using ne by (simp add: solve w render_progress_trace_lines search_spec_def render_message_def
                  split: option.split)
qed


lemma stdout_line_count_witness:
  "read_matrix [''matrix.txt'' \<mapsto> Regular_file (text_file [''1,2'', ''1,2''])] ''matrix.txt'' = Inr ([], Some [[1, 2], [1, 2]])
   \<and> no_column_overflow [[1, 2], [1, 2]]
   \<and> py_str_digits_ok (int (length (hd [[1, 2], [1, 2 :: int]]) ^ length [[1, 2], [1, 2 :: int]]))
   \<and> length (concat (map (render_message [CHR 0x3F])
        (solve_matrix_problem [''matrix.txt'' \<mapsto> Regular_file (text_file [''1,2'', ''1,2''])] ''matrix.txt''))) = 3"
proof -
  have r: "read_matrix [''matrix.txt'' \<mapsto> Regular_file (text_file [''1,2'', ''1,2''])] ''matrix.txt''
             = Inr ([], Some [[1, 2], [1, 2]])" by code_simp
  have s: "no_column_overflow [[1, 2], [1, 2]]" by code_simp
  have d: "py_str_digits_ok (int (length (hd [[1, 2], [1, 2 :: int]]) ^ length [[1, 2], [1, 2 :: int]]))"
    by (simp add: py_str_digits_ok_int64)
  have c: "checked_count [[1, 2], [1, 2]] 100 = 4" by code_simp
  have x: "search_spec [[1, 2], [1, 2]] 100 = Exhausted" by code_simp
  show ?thesis using stdout_line_count [OF r s d, of "[CHR 0x3F]"] r s d c x by simp
qed

end
