(* ===== verification/Spec2Isabelle.thy ===== *)
theory Spec2Isabelle
  imports Loop_Machine Odometer Console
begin

text \<open>
  \<^bold>\<open>A verified model of ring-shift.\<close> The program (\<^verbatim>\<open>src/main.py\<close>, one file)
  reads an integer matrix from \<^verbatim>\<open>matrix.txt\<close> and searches all combinations of
  per-row circular right shifts for one under which every column sums to 100,
  printing the first it finds or that there is none. Its parts, in the order the data
  flows, and where each is modelled:

  \<^item> \<^bold>\<open>Matrix Loader\<close> \<^verbatim>\<open>read_matrix\<close> (lines 5--45), theory \<open>Loader\<close>:
    \<open>read_matrix\<close>, with the per-line loop \<open>parse_lines\<close> and the line parser
    \<open>parse_row\<close>. The file system is a map from names to entries: a regular file
    with its text, a directory, an unreadable or an undecodable file
    (\<^verbatim>\<open>os.path.exists\<close> is membership). An exception from \<^verbatim>\<open>open\<close> or
    \<^verbatim>\<open>readlines\<close>, which the program never catches, is \<open>Inl\<close>; every path that
    prints and returns \<^verbatim>\<open>None\<close> returns its messages and \<open>None\<close>. The Python
    builtins it calls are in theory \<open>Py_Builtins\<close>, on ASCII text:
    \<^verbatim>\<open>open(filename, 'r').readlines()\<close> (\<open>py_open_readlines\<close>, with universal
    newlines \<open>py_readlines\<close>), \<^verbatim>\<open>str.strip\<close>,
    \<^verbatim>\<open>str.split(',')\<close>, \<^verbatim>\<open>str.startswith\<close> and \<^verbatim>\<open>int\<close>.
  \<^item> \<^bold>\<open>Row Shifter\<close> \<^verbatim>\<open>shift_row\<close> (lines 47--58), theory \<open>Shift\<close>: Python's
    floor modulo and the two list slices (\<open>py_slice_from\<close>, \<open>py_slice_upto\<close> in
    \<open>Prelude\<close>), zero shift included.
  \<^item> \<^bold>\<open>Column Sum Checker\<close> \<^verbatim>\<open>check_column_sums\<close> (lines 60--71), theory
    \<open>Column_Sums\<close>: the empty-matrix guard, NumPy's \<^verbatim>\<open>ValueError\<close> on ragged rows
    (caught: message and \<^verbatim>\<open>False\<close>), and NumPy's arithmetic on the array it builds:
    the dtype \<open>np_array_dtype\<close> (each Python int discovered as int64, else uint64,
    else object, then promoted, int64 with uint64 giving float64) and the column sums
    in it (\<open>np_column_sums\<close>): sums of \<open>64 word\<close>s read back with \<open>sint\<close> or
    \<open>uint\<close> for the integer dtypes, row-by-row float64 additions rounded to
    nearest-even (\<open>round_f64\<close>) for float64, exact sums for object.
  \<^item> \<^bold>\<open>Enumeration\<close> \<^verbatim>\<open>product(range(C), repeat=R)\<close> (lines 92--100), theory
    \<open>Enumeration\<close>: \<^verbatim>\<open>itertools.product\<close> as the fold its documentation gives.
    Theory \<open>Odometer\<close> holds the mixed-radix odometer of the specification's
    design notes (section 9), an abstract enumerator with no code behind it, and
    relates it to the program's enumeration.
  \<^item> \<^bold>\<open>Shift Search Engine\<close> \<^verbatim>\<open>solve_matrix_problem\<close> (lines 73--118) and the entry
    point (lines 120--121), theory \<open>Search\<close>: \<open>shift_matrix\<close> builds a candidate,
    \<open>search_loop\<close> is the \<^verbatim>\<open>for\<close> loop with its progress line every 5000
    candidates and its early return, \<open>solve_matrix_problem\<close> composes loader,
    guards and loop, \<open>main_entry\<close> runs it on \<^verbatim>\<open>matrix.txt\<close>.
    Theory \<open>Loop_Machine\<close> models the same loop as a state machine: a \<open>record\<close> of
    what the loop keeps between iterations (index, pending candidates, output,
    returned) and an \<open>inductive\<close> step relation, one rule per kind of iteration.
    The f-string of line 98 raises \<^verbatim>\<open>ValueError\<close> when \<open>C^R\<close> has more than
    4300 digits, CPython's limit on converting an integer to decimal
    (\<open>py_str_digits_ok\<close>); \<^verbatim>\<open>int\<close> applies the same limit when it parses
    (\<open>py_int\<close>).
  \<^item> \<^bold>\<open>Console output\<close>, the \<^verbatim>\<open>print\<close> calls (lines 13--118), theory
    \<open>Console\<close>: the exact text of every message, with Python's \<^verbatim>\<open>str\<close> of lists
    and tuples; \<open>stdout_text\<close> is the standard output of a run.

  The program's only output is what it prints, so the model's observable is the list
  of \<open>message\<close>s (theory \<open>Prelude\<close>), one constructor per \<^verbatim>\<open>print\<close>, and
  theory \<open>Console\<close> turns it into text. All loops run over finite lists, so every
  definition is a total function (structural recursion, and \<open>bit_length\<close> by a
  measure) and no fuel is needed. Every definition evaluates: the examples are
  checked by \<open>code_simp\<close>, or by \<open>simp\<close> where they hold 19-digit numbers.

  \<^bold>\<open>Abstract specification.\<close> \<open>search_spec\<close> (theory \<open>Search\<close>) is the specification's
  \<^verbatim>\<open>search(matrix, target)\<close>: the first assignment of the enumeration whose shifted
  matrix has every column summing exactly to the target, \<open>Exhausted\<close>, or
  \<open>Cannot_solve\<close> for a matrix without rows or columns.

  \<^bold>\<open>What is proved.\<close>
  \<^item> Refinement (C1): for a file that loads into a matrix of int64 entries none of
    whose candidates has a column sum outside the int64 range (\<open>no_column_overflow\<close>,
    so that NumPy's sums are exact) and whose \<open>C^R\<close> has at most 4300 digits, the
    program prints the loader's warnings, \<open>C^R\<close>, the progress lines of exactly the
    candidates the specification examines, and the specification's answer.
  \<^item> Under the same conditions the solution the program prints is the
    specification's, the least that works (C2), and it prints "no solution" exactly
    when no assignment works, after all \<open>C^R\<close> candidates (C4); for any loaded
    matrix a printed solution has one shift in \<open>[0, C)\<close> per row and a matrix of the
    input's shape whose rows permute the input's (C3).
  \<^item> Safety (C5): the "cannot solve" messages and the column-sum error are never
    printed. Uncaught exceptions (C6): the program ends with a traceback exactly when
    opening or reading the file raises (and then prints nothing else) or when \<open>C^R\<close>
    has more than 4300 digits (after the loader's warnings).
  \<^item> The loop as a state machine: the invariant of its reachable states, by rule
    induction (C7). Progress lines (C8): examining \<open>k\<close> candidates prints exactly
    \<open>k div 5000\<close> of them, reporting 5000, 10000, \<open>\<dots>\<close> of \<open>C^R\<close>.
  \<^item> Enumeration: strictly increasing lexicographic order (C9), exactly the \<open>C^R\<close>
    assignments over \<open>[0, C)\<close> (C10); the odometer visits the candidates in the
    program's order (C11) and the \<open>i\<close>-th candidate is \<open>i\<close> in base \<open>C\<close> (C12).
  \<^item> Column sums: the wrapped comparison on int64 entries (C13), exactness on int64
    entries when no column sum overflows (C14), the comparison modulo \<open>2^64\<close> on
    uint64 entries (C15), exactness once an entry leaves both 64-bit ranges (C16), and
    exactness on every shifted matrix when the row maxima sum to less than
    \<open>2^63\<close> (C17); the ragged case (C25) and the empty policy (C26). Lemmas
    \<open>check_column_sums_overflow\<close> and \<open>check_column_sums_float64_rounding\<close> show
    columns accepted although they do not sum to 100, and
    \<open>solve_matrix_problem_overflow\<close> a file for which the program prints such a
    wrong solution.
  \<^item> Shifts: the specification's slice description (C18), reduction modulo the
    length and identity (C27), round trip (C28), composition (C29), permutation of
    the row (C30).
  \<^item> Loader: a successful load is a non-empty rectangular matrix with non-empty rows
    (C19); a failed load prints one structured error (C20); loading raises exactly for
    a directory, an unreadable and an undecodable file (C21); every loaded entry has at
    most 4300 digits, so printing it never raises (C22); a matrix written one row per
    line, as comma-separated decimals, is loaded back unchanged, first line included
    (C23); a file of whitespace is "no valid data", not "empty" (C24).
  \<^item> Output: a printed row, without its brackets, is read back by the loader as the
    same row (C31); the number of lines a run prints (C32).

  \<^bold>\<open>Not modelled.\<close> Decoding the file's bytes: the model starts from the
  decoded text of a regular file, and a file whose bytes do not decode is the entry
  \<open>Undecodable_file\<close> (HOL's characters are 8-bit, so non-ASCII text has no faithful
  image); for the same reason the non-ASCII whitespace \<^verbatim>\<open>str.strip\<close> removes
  (\<^verbatim>\<open>\x85\<close>, \<^verbatim>\<open>\xa0\<close> and the Unicode spaces) and the non-ASCII digits
  \<^verbatim>\<open>int\<close> accepts. The text of a traceback on standard error; the text of NumPy's
  exception in \<^verbatim>\<open>check_column_sums\<close> (a parameter of the rendering; never printed
  for a loaded matrix, C5). The float64 exponent is unbounded in \<open>round_f64\<close>, which
  differs from IEEE doubles only for sums beyond \<open>2^1024\<close>, that is for more than
  \<open>2^960\<close> rows. The comparison with the target converts it to the array's dtype as
  NumPy 2 does; the program always compares with 100, where NumPy 1 agrees. A
  changed \<^verbatim>\<open>sys.set_int_max_str_digits\<close>: the default 4300 is fixed. Runtime and
  memory (\<open>C^R\<close> candidates) are not modelled.

  \<^bold>\<open>Plan for the next steps.\<close> (1) The specification's core interface
  with a progress sink: a search parametrised by a callback and the proof that the
  callback does not change the result. (2) The program on matrices with column
  overflow: which answers the wrapped sums can change. (3) Non-ASCII whitespace and
  digits in \<^verbatim>\<open>str.strip\<close> and \<^verbatim>\<open>int\<close>.
\<close>

end
